theory Spec2Isabelle
  imports Complex_Main "HOL-Library.Log_Nat"
begin

section \<open>JavaScript values and arithmetic\<close>

text \<open>
  The program is TypeScript, \<^verbatim>\<open>src/weatherApi.ts\<close>.  A JavaScript number is one of
  the constructors \<open>Num\<close>, \<open>NaN\<close>, \<open>PosInf\<close>, \<open>NegInf\<close> below; \<open>Undefined\<close> is
  what reading an array past its end (or a missing property) gives.  A finite number is
  a rational: every IEEE-754 double is one.  \<^verbatim>\<open>Math.round\<close>, \<^verbatim>\<open>Math.min\<close>,
  \<^verbatim>\<open>Math.max\<close> and \<^verbatim>\<open>%\<close> are exact on doubles; \<^verbatim>\<open>+\<close>, \<^verbatim>\<open>*\<close> and \<^verbatim>\<open>/\<close> give
  the double nearest to the exact result (\<open>double\<close> below).  The sign of zero is not
  modelled.  Numbers inside a payload are finite and have type \<open>rat\<close>; they are meant to
  be doubles, the values that parsing the response gives.
\<close>

datatype jsval = Num rat | NaN | PosInf | NegInf | Undefined

text \<open>Rounding to double precision, to the nearest with ties to even.  For \<open>x > 0\<close>,
  \<open>ilog2 x\<close> is the exponent \<open>e\<close> with \<open>2 ^ e \<le> x < 2 ^ (e + 1)\<close>, found from the bit lengths
  of numerator and denominator.  A double of that exponent is a multiple of
  \<open>2 ^ (e - 52)\<close>, and of \<open>2 ^ (- 1074)\<close> in the subnormal range; \<open>nearest x\<close> is the
  multiple nearest to \<open>x\<close>.  A result of magnitude \<open>2 ^ 1024\<close> or more is an infinity.\<close>

definition ilog2 :: "rat \<Rightarrow> int" where
  "ilog2 x =
     (let (a, b) = quotient_of x; k = bitlen a - bitlen b
      in if 2 powi k \<le> x then k else k - 1)"

definition round_half_even :: "rat \<Rightarrow> int" where
  "round_half_even y =
     (let m = \<lfloor>y\<rfloor>; r = y - of_int m
      in if r < 1 / 2 then m else if 1 / 2 < r then m + 1 else if even m then m else m + 1)"

definition overflow_threshold :: rat where
  "overflow_threshold = 2 ^ 1024"

definition nearest :: "rat \<Rightarrow> rat" where
  "nearest x =
     (let p = max (ilog2 \<bar>x\<bar> - 52) (- 1074)
      in of_int (round_half_even (x / 2 powi p)) * 2 powi p)"

definition double :: "rat \<Rightarrow> jsval" where
  "double x =
     (if x = 0 then Num 0
      else let v = nearest x
           in if overflow_threshold \<le> v then PosInf
              else if v \<le> - overflow_threshold then NegInf
              else Num v)"

text \<open>\<^verbatim>\<open>arr[i]\<close> on an array of numbers: \<^verbatim>\<open>undefined\<close> past the end.\<close>

definition num_at :: "rat list \<Rightarrow> nat \<Rightarrow> jsval" where
  "num_at arr i = (if i < length arr then Num (arr ! i) else Undefined)"

text \<open>\<^verbatim>\<open>arr[i]\<close> on an array of strings; \<open>None\<close> is \<^verbatim>\<open>undefined\<close>.\<close>

definition str_at :: "string list \<Rightarrow> nat \<Rightarrow> string option" where
  "str_at arr i = (if i < length arr then Some (arr ! i) else None)"

text \<open>\<^verbatim>\<open>Math.round\<close>: the nearest integer, a tie going up; \<^verbatim>\<open>undefined\<close> converts to NaN.\<close>

fun Math_round :: "jsval \<Rightarrow> jsval" where
  "Math_round (Num r) = Num (of_int \<lfloor>r + 1 / 2\<rfloor>)"
| "Math_round PosInf = PosInf"
| "Math_round NegInf = NegInf"
| "Math_round NaN = NaN"
| "Math_round Undefined = NaN"

text \<open>The binary operators \<^verbatim>\<open>+\<close>, \<^verbatim>\<open>*\<close>, \<^verbatim>\<open>/\<close> and \<^verbatim>\<open>%\<close> on numbers (an
  \<^verbatim>\<open>undefined\<close> operand converts to NaN).  Sum, product and quotient are rounded to
  double precision.  A zero divisor is \<open>+0\<close>: the only divisor of the program that can
  be zero is an array length.\<close>

fun js_add :: "jsval \<Rightarrow> jsval \<Rightarrow> jsval" where
  "js_add (Num a) (Num b) = double (a + b)"
| "js_add (Num a) PosInf = PosInf"
| "js_add (Num a) NegInf = NegInf"
| "js_add PosInf (Num b) = PosInf"
| "js_add PosInf PosInf = PosInf"
| "js_add NegInf (Num b) = NegInf"
| "js_add NegInf NegInf = NegInf"
| "js_add _ _ = NaN"

fun js_mul :: "jsval \<Rightarrow> jsval \<Rightarrow> jsval" where
  "js_mul (Num a) (Num b) = double (a * b)"
| "js_mul (Num a) PosInf = (if a = 0 then NaN else if 0 < a then PosInf else NegInf)"
| "js_mul (Num a) NegInf = (if a = 0 then NaN else if 0 < a then NegInf else PosInf)"
| "js_mul PosInf (Num b) = (if b = 0 then NaN else if 0 < b then PosInf else NegInf)"
| "js_mul NegInf (Num b) = (if b = 0 then NaN else if 0 < b then NegInf else PosInf)"
| "js_mul PosInf PosInf = PosInf"
| "js_mul PosInf NegInf = NegInf"
| "js_mul NegInf PosInf = NegInf"
| "js_mul NegInf NegInf = PosInf"
| "js_mul _ _ = NaN"

fun js_div :: "jsval \<Rightarrow> jsval \<Rightarrow> jsval" where
  "js_div (Num a) (Num b) =
     (if b \<noteq> 0 then double (a / b)
      else if a = 0 then NaN else if 0 < a then PosInf else NegInf)"
| "js_div (Num a) PosInf = Num 0"
| "js_div (Num a) NegInf = Num 0"
| "js_div PosInf (Num b) = (if 0 \<le> b then PosInf else NegInf)"
| "js_div NegInf (Num b) = (if 0 \<le> b then NegInf else PosInf)"
| "js_div _ _ = NaN"

definition trunc :: "rat \<Rightarrow> int" where
  "trunc x = (if 0 \<le> x then \<lfloor>x\<rfloor> else \<lceil>x\<rceil>)"

text \<open>\<^verbatim>\<open>a % b\<close> is the remainder of the division truncated towards zero: it has the
  sign of \<open>a\<close>, and it is exact (the remainder of two doubles is a double).\<close>

fun js_rem :: "jsval \<Rightarrow> jsval \<Rightarrow> jsval" where
  "js_rem (Num a) (Num b) = (if b = 0 then NaN else Num (a - b * of_int (trunc (a / b))))"
| "js_rem (Num a) PosInf = Num a"
| "js_rem (Num a) NegInf = Num a"
| "js_rem _ _ = NaN"

text \<open>\<^verbatim>\<open>Math.min(...arr)\<close> and \<^verbatim>\<open>Math.max(...arr)\<close> on an array of finite numbers: the
  running extreme starts at \<open>+Infinity\<close> (\<open>-Infinity\<close>) and each argument replaces it when it
  is smaller (larger).\<close>

definition Math_min :: "rat list \<Rightarrow> jsval" where
  "Math_min arr =
     fold (\<lambda>x lowest. case lowest of Num m \<Rightarrow> (if x < m then Num x else Num m) | _ \<Rightarrow> Num x)
       arr PosInf"

definition Math_max :: "rat list \<Rightarrow> jsval" where
  "Math_max arr =
     fold (\<lambda>x highest. case highest of Num m \<Rightarrow> (if m < x then Num x else Num m) | _ \<Rightarrow> Num x)
       arr NegInf"

text \<open>The property key of a number used as an index, \<^verbatim>\<open>obj[code]\<close>: the key of an integer
  is its decimal numeral.  The key of any other number (\<^verbatim>\<open>"1.5"\<close>, \<^verbatim>\<open>"NaN"\<close>,
  \<^verbatim>\<open>"Infinity"\<close>) and of \<^verbatim>\<open>undefined\<close> names no entry of a table keyed by integer literals,
  no element of an array, and no property of \<^verbatim>\<open>Object.prototype\<close> or
  \<^verbatim>\<open>Array.prototype\<close>: the lookup gives \<^verbatim>\<open>undefined\<close>.\<close>

definition number_key :: "jsval \<Rightarrow> int option" where
  "number_key v = (case v of Num r \<Rightarrow> (if of_int \<lfloor>r\<rfloor> = r then Some \<lfloor>r\<rfloor> else None) | _ \<Rightarrow> None)"

definition lookup_number :: "(int \<times> 'a) list \<Rightarrow> jsval \<Rightarrow> 'a option" where
  "lookup_number table code = (case number_key code of Some k \<Rightarrow> map_of table k | None \<Rightarrow> None)"

definition index_number :: "'a list \<Rightarrow> jsval \<Rightarrow> 'a option" where
  "index_number arr index =
     (case number_key index of
        Some k \<Rightarrow> (if 0 \<le> k \<and> nat k < length arr then Some (arr ! nat k) else None)
      | None \<Rightarrow> None)"

text \<open>\<^verbatim>\<open>v || fallback\<close> where \<open>v\<close> is a string or \<^verbatim>\<open>undefined\<close>: both \<^verbatim>\<open>undefined\<close> and
  the empty string are falsy.\<close>

definition or_else :: "string option \<Rightarrow> string \<Rightarrow> string" where
  "or_else v fallback = (case v of Some s \<Rightarrow> (if s = [] then fallback else s) | None \<Rightarrow> fallback)"

text \<open>An object literal inherits from \<^verbatim>\<open>Object.prototype\<close>: \<^verbatim>\<open>obj[key]\<close> with a string
  key that is not an own property finds the inherited one.  These are the property names
  of \<^verbatim>\<open>Object.prototype\<close>; each holds a function, but \<^verbatim>\<open>__proto__\<close>, which reads as the
  prototype object itself, so each inherited value is truthy and is not a string.\<close>

definition Object_prototype :: "string list" where
  "Object_prototype =
     [''constructor'', ''hasOwnProperty'', ''isPrototypeOf'', ''propertyIsEnumerable'',
      ''toLocaleString'', ''toString'', ''valueOf'', ''__proto__'', ''__defineGetter__'',
      ''__defineSetter__'', ''__lookupGetter__'', ''__lookupSetter__'']"

datatype 'a property = Own 'a | Inherited string | Absent

definition lookup_string :: "(string \<times> 'a) list \<Rightarrow> string \<Rightarrow> 'a property" where
  "lookup_string table key =
     (case map_of table key of
        Some v \<Rightarrow> Own v
      | None \<Rightarrow> (if key \<in> set Object_prototype then Inherited key else Absent))"

section \<open>Weather code classifier\<close>

text \<open>Strings are the UTF-8 bytes of the source text; the Russian and emoji literals are
  written byte by byte, with a transliteration beside each.\<close>

definition weatherCodes :: "(int \<times> string) list" where
  "weatherCodes = [
     (0, [CHR 0xD0, CHR 0xAF, CHR 0xD1, CHR 0x81, CHR 0xD0, CHR 0xBD, CHR 0xD0, CHR 0xBE]) \<comment> \<open>Yasno: clear\<close>,
     (1, [CHR 0xD0, CHR 0x9F, CHR 0xD1, CHR 0x80, CHR 0xD0, CHR 0xB5, CHR 0xD0, CHR 0xB8, CHR 0xD0, CHR 0xBC, CHR 0xD1, CHR 0x83, CHR 0xD1, CHR 0x89, CHR 0xD0, CHR 0xB5, CHR 0xD1, CHR 0x81, CHR 0xD1, CHR 0x82, CHR 0xD0, CHR 0xB2, CHR 0xD0, CHR 0xB5, CHR 0xD0, CHR 0xBD, CHR 0xD0, CHR 0xBD, CHR 0xD0, CHR 0xBE, CHR 0x20, CHR 0xD1, CHR 0x8F, CHR 0xD1, CHR 0x81, CHR 0xD0, CHR 0xBD, CHR 0xD0, CHR 0xBE]) \<comment> \<open>Preimushchestvenno yasno: mainly clear\<close>,
     (2, [CHR 0xD0, CHR 0x9F, CHR 0xD0, CHR 0xB5, CHR 0xD1, CHR 0x80, CHR 0xD0, CHR 0xB5, CHR 0xD0, CHR 0xBC, CHR 0xD0, CHR 0xB5, CHR 0xD0, CHR 0xBD, CHR 0xD0, CHR 0xBD, CHR 0xD0, CHR 0xB0, CHR 0xD1, CHR 0x8F, CHR 0x20, CHR 0xD0, CHR 0xBE, CHR 0xD0, CHR 0xB1, CHR 0xD0, CHR 0xBB, CHR 0xD0, CHR 0xB0, CHR 0xD1, CHR 0x87, CHR 0xD0, CHR 0xBD, CHR 0xD0, CHR 0xBE, CHR 0xD1, CHR 0x81, CHR 0xD1, CHR 0x82, CHR 0xD1, CHR 0x8C]) \<comment> \<open>Peremennaya oblachnost: partly cloudy\<close>,
     (3, [CHR 0xD0, CHR 0x9F, CHR 0xD0, CHR 0xB0, CHR 0xD1, CHR 0x81, CHR 0xD0, CHR 0xBC, CHR 0xD1, CHR 0x83, CHR 0xD1, CHR 0x80, CHR 0xD0, CHR 0xBD, CHR 0xD0, CHR 0xBE]) \<comment> \<open>Pasmurno: overcast\<close>,
     (45, [CHR 0xD0, CHR 0xA2, CHR 0xD1, CHR 0x83, CHR 0xD0, CHR 0xBC, CHR 0xD0, CHR 0xB0, CHR 0xD0, CHR 0xBD]) \<comment> \<open>Tuman: fog\<close>,
     (48, [CHR 0xD0, CHR 0x98, CHR 0xD0, CHR 0xB7, CHR 0xD0, CHR 0xBC, CHR 0xD0, CHR 0xBE, CHR 0xD1, CHR 0x80, CHR 0xD0, CHR 0xBE, CHR 0xD0, CHR 0xB7, CHR 0xD1, CHR 0x8C]) \<comment> \<open>Izmoroz: rime\<close>,
     (51, [CHR 0xD0, CHR 0x9B, CHR 0xD0, CHR 0xB5, CHR 0xD0, CHR 0xB3, CHR 0xD0, CHR 0xBA, CHR 0xD0, CHR 0xB0, CHR 0xD1, CHR 0x8F, CHR 0x20, CHR 0xD0, CHR 0xBC, CHR 0xD0, CHR 0xBE, CHR 0xD1, CHR 0x80, CHR 0xD0, CHR 0xBE, CHR 0xD1, CHR 0x81, CHR 0xD1, CHR 0x8C]) \<comment> \<open>Legkaya moros: light drizzle\<close>,
     (53, [CHR 0xD0, CHR 0xA3, CHR 0xD0, CHR 0xBC, CHR 0xD0, CHR 0xB5, CHR 0xD1, CHR 0x80, CHR 0xD0, CHR 0xB5, CHR 0xD0, CHR 0xBD, CHR 0xD0, CHR 0xBD, CHR 0xD0, CHR 0xB0, CHR 0xD1, CHR 0x8F, CHR 0x20, CHR 0xD0, CHR 0xBC, CHR 0xD0, CHR 0xBE, CHR 0xD1, CHR 0x80, CHR 0xD0, CHR 0xBE, CHR 0xD1, CHR 0x81, CHR 0xD1, CHR 0x8C]) \<comment> \<open>Umerennaya moros: moderate drizzle\<close>,
     (55, [CHR 0xD0, CHR 0xA1, CHR 0xD0, CHR 0xB8, CHR 0xD0, CHR 0xBB, CHR 0xD1, CHR 0x8C, CHR 0xD0, CHR 0xBD, CHR 0xD0, CHR 0xB0, CHR 0xD1, CHR 0x8F, CHR 0x20, CHR 0xD0, CHR 0xBC, CHR 0xD0, CHR 0xBE, CHR 0xD1, CHR 0x80, CHR 0xD0, CHR 0xBE, CHR 0xD1, CHR 0x81, CHR 0xD1, CHR 0x8C]) \<comment> \<open>Silnaya moros: dense drizzle\<close>,
     (61, [CHR 0xD0, CHR 0x9B, CHR 0xD0, CHR 0xB5, CHR 0xD0, CHR 0xB3, CHR 0xD0, CHR 0xBA, CHR 0xD0, CHR 0xB8, CHR 0xD0, CHR 0xB9, CHR 0x20, CHR 0xD0, CHR 0xB4, CHR 0xD0, CHR 0xBE, CHR 0xD0, CHR 0xB6, CHR 0xD0, CHR 0xB4, CHR 0xD1, CHR 0x8C]) \<comment> \<open>Legkiy dozhd: light rain\<close>,
     (63, [CHR 0xD0, CHR 0xA3, CHR 0xD0, CHR 0xBC, CHR 0xD0, CHR 0xB5, CHR 0xD1, CHR 0x80, CHR 0xD0, CHR 0xB5, CHR 0xD0, CHR 0xBD, CHR 0xD0, CHR 0xBD, CHR 0xD1, CHR 0x8B, CHR 0xD0, CHR 0xB9, CHR 0x20, CHR 0xD0, CHR 0xB4, CHR 0xD0, CHR 0xBE, CHR 0xD0, CHR 0xB6, CHR 0xD0, CHR 0xB4, CHR 0xD1, CHR 0x8C]) \<comment> \<open>Umerennyy dozhd: moderate rain\<close>,
     (65, [CHR 0xD0, CHR 0xA1, CHR 0xD0, CHR 0xB8, CHR 0xD0, CHR 0xBB, CHR 0xD1, CHR 0x8C, CHR 0xD0, CHR 0xBD, CHR 0xD1, CHR 0x8B, CHR 0xD0, CHR 0xB9, CHR 0x20, CHR 0xD0, CHR 0xB4, CHR 0xD0, CHR 0xBE, CHR 0xD0, CHR 0xB6, CHR 0xD0, CHR 0xB4, CHR 0xD1, CHR 0x8C]) \<comment> \<open>Silnyy dozhd: heavy rain\<close>,
     (71, [CHR 0xD0, CHR 0x9B, CHR 0xD0, CHR 0xB5, CHR 0xD0, CHR 0xB3, CHR 0xD0, CHR 0xBA, CHR 0xD0, CHR 0xB8, CHR 0xD0, CHR 0xB9, CHR 0x20, CHR 0xD1, CHR 0x81, CHR 0xD0, CHR 0xBD, CHR 0xD0, CHR 0xB5, CHR 0xD0, CHR 0xB3]) \<comment> \<open>Legkiy sneg: light snow\<close>,
     (73, [CHR 0xD0, CHR 0xA3, CHR 0xD0, CHR 0xBC, CHR 0xD0, CHR 0xB5, CHR 0xD1, CHR 0x80, CHR 0xD0, CHR 0xB5, CHR 0xD0, CHR 0xBD, CHR 0xD0, CHR 0xBD, CHR 0xD1, CHR 0x8B, CHR 0xD0, CHR 0xB9, CHR 0x20, CHR 0xD1, CHR 0x81, CHR 0xD0, CHR 0xBD, CHR 0xD0, CHR 0xB5, CHR 0xD0, CHR 0xB3]) \<comment> \<open>Umerennyy sneg: moderate snow\<close>,
     (75, [CHR 0xD0, CHR 0xA1, CHR 0xD0, CHR 0xB8, CHR 0xD0, CHR 0xBB, CHR 0xD1, CHR 0x8C, CHR 0xD0, CHR 0xBD, CHR 0xD1, CHR 0x8B, CHR 0xD0, CHR 0xB9, CHR 0x20, CHR 0xD1, CHR 0x81, CHR 0xD0, CHR 0xBD, CHR 0xD0, CHR 0xB5, CHR 0xD0, CHR 0xB3]) \<comment> \<open>Silnyy sneg: heavy snow\<close>,
     (77, [CHR 0xD0, CHR 0xA1, CHR 0xD0, CHR 0xBD, CHR 0xD0, CHR 0xB5, CHR 0xD0, CHR 0xB6, CHR 0xD0, CHR 0xBD, CHR 0xD0, CHR 0xB0, CHR 0xD1, CHR 0x8F, CHR 0x20, CHR 0xD0, CHR 0xBA, CHR 0xD1, CHR 0x80, CHR 0xD1, CHR 0x83, CHR 0xD0, CHR 0xBF, CHR 0xD0, CHR 0xB0]) \<comment> \<open>Snezhnaya krupa: snow grains\<close>,
     (80, [CHR 0xD0, CHR 0x9B, CHR 0xD0, CHR 0xB5, CHR 0xD0, CHR 0xB3, CHR 0xD0, CHR 0xBA, CHR 0xD0, CHR 0xB8, CHR 0xD0, CHR 0xB5, CHR 0x20, CHR 0xD0, CHR 0xBB, CHR 0xD0, CHR 0xB8, CHR 0xD0, CHR 0xB2, CHR 0xD0, CHR 0xBD, CHR 0xD0, CHR 0xB8]) \<comment> \<open>Legkie livni: light showers\<close>,
     (81, [CHR 0xD0, CHR 0xA3, CHR 0xD0, CHR 0xBC, CHR 0xD0, CHR 0xB5, CHR 0xD1, CHR 0x80, CHR 0xD0, CHR 0xB5, CHR 0xD0, CHR 0xBD, CHR 0xD0, CHR 0xBD, CHR 0xD1, CHR 0x8B, CHR 0xD0, CHR 0xB5, CHR 0x20, CHR 0xD0, CHR 0xBB, CHR 0xD0, CHR 0xB8, CHR 0xD0, CHR 0xB2, CHR 0xD0, CHR 0xBD, CHR 0xD0, CHR 0xB8]) \<comment> \<open>Umerennye livni: moderate showers\<close>,
     (82, [CHR 0xD0, CHR 0xA1, CHR 0xD0, CHR 0xB8, CHR 0xD0, CHR 0xBB, CHR 0xD1, CHR 0x8C, CHR 0xD0, CHR 0xBD, CHR 0xD1, CHR 0x8B, CHR 0xD0, CHR 0xB5, CHR 0x20, CHR 0xD0, CHR 0xBB, CHR 0xD0, CHR 0xB8, CHR 0xD0, CHR 0xB2, CHR 0xD0, CHR 0xBD, CHR 0xD0, CHR 0xB8]) \<comment> \<open>Silnye livni: violent showers\<close>,
     (95, [CHR 0xD0, CHR 0x93, CHR 0xD1, CHR 0x80, CHR 0xD0, CHR 0xBE, CHR 0xD0, CHR 0xB7, CHR 0xD0, CHR 0xB0]) \<comment> \<open>Groza: thunderstorm\<close>,
     (96, [CHR 0xD0, CHR 0x93, CHR 0xD1, CHR 0x80, CHR 0xD0, CHR 0xBE, CHR 0xD0, CHR 0xB7, CHR 0xD0, CHR 0xB0, CHR 0x20, CHR 0xD1, CHR 0x81, CHR 0x20, CHR 0xD0, CHR 0xB3, CHR 0xD1, CHR 0x80, CHR 0xD0, CHR 0xB0, CHR 0xD0, CHR 0xB4, CHR 0xD0, CHR 0xBE, CHR 0xD0, CHR 0xBC]) \<comment> \<open>Groza s gradom: thunderstorm with hail\<close>,
     (99, [CHR 0xD0, CHR 0xA1, CHR 0xD0, CHR 0xB8, CHR 0xD0, CHR 0xBB, CHR 0xD1, CHR 0x8C, CHR 0xD0, CHR 0xBD, CHR 0xD0, CHR 0xB0, CHR 0xD1, CHR 0x8F, CHR 0x20, CHR 0xD0, CHR 0xB3, CHR 0xD1, CHR 0x80, CHR 0xD0, CHR 0xBE, CHR 0xD0, CHR 0xB7, CHR 0xD0, CHR 0xB0, CHR 0x20, CHR 0xD1, CHR 0x81, CHR 0x20, CHR 0xD0, CHR 0xB3, CHR 0xD1, CHR 0x80, CHR 0xD0, CHR 0xB0, CHR 0xD0, CHR 0xB4, CHR 0xD0, CHR 0xBE, CHR 0xD0, CHR 0xBC]) \<comment> \<open>Silnaya groza s gradom: heavy thunderstorm with hail\<close>
   ]"

definition iconMap :: "(int \<times> string) list" where
  "iconMap = [
     (0, ''01d''), (1, ''02d''), (2, ''03d''), (3, ''04d''), 
     (45, ''50d''), (48, ''50d''), 
     (51, ''09d''), (53, ''09d''), (55, ''09d''), 
     (61, ''10d''), (63, ''10d''), (65, ''10d''), 
     (71, ''13d''), (73, ''13d''), (75, ''13d''), (77, ''13d''), 
     (80, ''09d''), (81, ''09d''), (82, ''09d''), 
     (95, ''11d''), (96, ''11d''), (99, ''11d'')
   ]"

definition alternativeIconMap :: "(string \<times> string) list" where
  "alternativeIconMap = [
     (''01d'', [CHR 0xE2, CHR 0x98, CHR 0x80, CHR 0xEF, CHR 0xB8, CHR 0x8F]) \<comment> \<open>sun\<close>,
     (''01n'', [CHR 0xF0, CHR 0x9F, CHR 0x8C, CHR 0x99]) \<comment> \<open>crescent moon\<close>,
     (''02d'', [CHR 0xE2, CHR 0x9B, CHR 0x85]) \<comment> \<open>sun behind cloud\<close>,
     (''02n'', [CHR 0xE2, CHR 0x98, CHR 0x81, CHR 0xEF, CHR 0xB8, CHR 0x8F]) \<comment> \<open>cloud\<close>,
     (''03d'', [CHR 0xE2, CHR 0x98, CHR 0x81, CHR 0xEF, CHR 0xB8, CHR 0x8F]) \<comment> \<open>cloud\<close>,
     (''03n'', [CHR 0xE2, CHR 0x98, CHR 0x81, CHR 0xEF, CHR 0xB8, CHR 0x8F]) \<comment> \<open>cloud\<close>,
     (''04d'', [CHR 0xE2, CHR 0x98, CHR 0x81, CHR 0xEF, CHR 0xB8, CHR 0x8F]) \<comment> \<open>cloud\<close>,
     (''04n'', [CHR 0xE2, CHR 0x98, CHR 0x81, CHR 0xEF, CHR 0xB8, CHR 0x8F]) \<comment> \<open>cloud\<close>,
     (''09d'', [CHR 0xF0, CHR 0x9F, CHR 0x8C, CHR 0xA7, CHR 0xEF, CHR 0xB8, CHR 0x8F]) \<comment> \<open>cloud with rain\<close>,
     (''09n'', [CHR 0xF0, CHR 0x9F, CHR 0x8C, CHR 0xA7, CHR 0xEF, CHR 0xB8, CHR 0x8F]) \<comment> \<open>cloud with rain\<close>,
     (''10d'', [CHR 0xF0, CHR 0x9F, CHR 0x8C, CHR 0xA6, CHR 0xEF, CHR 0xB8, CHR 0x8F]) \<comment> \<open>sun behind rain cloud\<close>,
     (''10n'', [CHR 0xF0, CHR 0x9F, CHR 0x8C, CHR 0xA7, CHR 0xEF, CHR 0xB8, CHR 0x8F]) \<comment> \<open>cloud with rain\<close>,
     (''11d'', [CHR 0xE2, CHR 0x9B, CHR 0x88, CHR 0xEF, CHR 0xB8, CHR 0x8F]) \<comment> \<open>cloud with lightning and rain\<close>,
     (''11n'', [CHR 0xE2, CHR 0x9B, CHR 0x88, CHR 0xEF, CHR 0xB8, CHR 0x8F]) \<comment> \<open>cloud with lightning and rain\<close>,
     (''13d'', [CHR 0xE2, CHR 0x9D, CHR 0x84, CHR 0xEF, CHR 0xB8, CHR 0x8F]) \<comment> \<open>snowflake\<close>,
     (''13n'', [CHR 0xE2, CHR 0x9D, CHR 0x84, CHR 0xEF, CHR 0xB8, CHR 0x8F]) \<comment> \<open>snowflake\<close>,
     (''50d'', [CHR 0xF0, CHR 0x9F, CHR 0x8C, CHR 0xAB, CHR 0xEF, CHR 0xB8, CHR 0x8F]) \<comment> \<open>fog\<close>,
     (''50n'', [CHR 0xF0, CHR 0x9F, CHR 0x8C, CHR 0xAB, CHR 0xEF, CHR 0xB8, CHR 0x8F]) \<comment> \<open>fog\<close>
   ]"

definition directions :: "string list" where
  "directions = [
     [CHR 0xD0, CHR 0xA1] \<comment> \<open>S (sever): N\<close>,
     [CHR 0xD0, CHR 0xA1, CHR 0xD0, CHR 0x92] \<comment> \<open>SV: NE\<close>,
     [CHR 0xD0, CHR 0x92] \<comment> \<open>V (vostok): E\<close>,
     [CHR 0xD0, CHR 0xAE, CHR 0xD0, CHR 0x92] \<comment> \<open>YuV: SE\<close>,
     [CHR 0xD0, CHR 0xAE] \<comment> \<open>Yu (yug): S\<close>,
     [CHR 0xD0, CHR 0xAE, CHR 0xD0, CHR 0x97] \<comment> \<open>YuZ: SW\<close>,
     [CHR 0xD0, CHR 0x97] \<comment> \<open>Z (zapad): W\<close>,
     [CHR 0xD0, CHR 0xA1, CHR 0xD0, CHR 0x97] \<comment> \<open>SZ: NW\<close>
   ]"

definition description_fallback :: string where \<comment> \<open>Neizvestno: unknown\<close>
  "description_fallback = [CHR 0xD0, CHR 0x9D, CHR 0xD0, CHR 0xB5, CHR 0xD0, CHR 0xB8, CHR 0xD0, CHR 0xB7, CHR 0xD0, CHR 0xB2, CHR 0xD0, CHR 0xB5, CHR 0xD1, CHR 0x81, CHR 0xD1, CHR 0x82, CHR 0xD0, CHR 0xBD, CHR 0xD0, CHR 0xBE]"

definition glyph_fallback :: string where \<comment> \<open>question mark\<close>
  "glyph_fallback = [CHR 0xE2, CHR 0x9D, CHR 0x93]"

definition msg_not_found :: string where \<comment> \<open>Dannye ne naydeny: data not found\<close>
  "msg_not_found = [CHR 0xD0, CHR 0x94, CHR 0xD0, CHR 0xB0, CHR 0xD0, CHR 0xBD, CHR 0xD0, CHR 0xBD, CHR 0xD1, CHR 0x8B, CHR 0xD0, CHR 0xB5, CHR 0x20, CHR 0xD0, CHR 0xBD, CHR 0xD0, CHR 0xB5, CHR 0x20, CHR 0xD0, CHR 0xBD, CHR 0xD0, CHR 0xB0, CHR 0xD0, CHR 0xB9, CHR 0xD0, CHR 0xB4, CHR 0xD0, CHR 0xB5, CHR 0xD0, CHR 0xBD, CHR 0xD1, CHR 0x8B]"

definition msg_rate_limit :: string where \<comment> \<open>Prevyshen limit zaprosov: request limit exceeded\<close>
  "msg_rate_limit = [CHR 0xD0, CHR 0x9F, CHR 0xD1, CHR 0x80, CHR 0xD0, CHR 0xB5, CHR 0xD0, CHR 0xB2, CHR 0xD1, CHR 0x8B, CHR 0xD1, CHR 0x88, CHR 0xD0, CHR 0xB5, CHR 0xD0, CHR 0xBD, CHR 0x20, CHR 0xD0, CHR 0xBB, CHR 0xD0, CHR 0xB8, CHR 0xD0, CHR 0xBC, CHR 0xD0, CHR 0xB8, CHR 0xD1, CHR 0x82, CHR 0x20, CHR 0xD0, CHR 0xB7, CHR 0xD0, CHR 0xB0, CHR 0xD0, CHR 0xBF, CHR 0xD1, CHR 0x80, CHR 0xD0, CHR 0xBE, CHR 0xD1, CHR 0x81, CHR 0xD0, CHR 0xBE, CHR 0xD0, CHR 0xB2]"

definition msg_server :: string where \<comment> \<open>Oshibka servera: server error\<close>
  "msg_server = [CHR 0xD0, CHR 0x9E, CHR 0xD1, CHR 0x88, CHR 0xD0, CHR 0xB8, CHR 0xD0, CHR 0xB1, CHR 0xD0, CHR 0xBA, CHR 0xD0, CHR 0xB0, CHR 0x20, CHR 0xD1, CHR 0x81, CHR 0xD0, CHR 0xB5, CHR 0xD1, CHR 0x80, CHR 0xD0, CHR 0xB2, CHR 0xD0, CHR 0xB5, CHR 0xD1, CHR 0x80, CHR 0xD0, CHR 0xB0]"

definition msg_no_connection :: string where \<comment> \<open>Net soedineniya s serverom: no connection to the server\<close>
  "msg_no_connection = [CHR 0xD0, CHR 0x9D, CHR 0xD0, CHR 0xB5, CHR 0xD1, CHR 0x82, CHR 0x20, CHR 0xD1, CHR 0x81, CHR 0xD0, CHR 0xBE, CHR 0xD0, CHR 0xB5, CHR 0xD0, CHR 0xB4, CHR 0xD0, CHR 0xB8, CHR 0xD0, CHR 0xBD, CHR 0xD0, CHR 0xB5, CHR 0xD0, CHR 0xBD, CHR 0xD0, CHR 0xB8, CHR 0xD1, CHR 0x8F, CHR 0x20, CHR 0xD1, CHR 0x81, CHR 0x20, CHR 0xD1, CHR 0x81, CHR 0xD0, CHR 0xB5, CHR 0xD1, CHR 0x80, CHR 0xD0, CHR 0xB2, CHR 0xD0, CHR 0xB5, CHR 0xD1, CHR 0x80, CHR 0xD0, CHR 0xBE, CHR 0xD0, CHR 0xBC]"

definition msg_unknown :: string where \<comment> \<open>Neizvestnaya oshibka: unknown error\<close>
  "msg_unknown = [CHR 0xD0, CHR 0x9D, CHR 0xD0, CHR 0xB5, CHR 0xD0, CHR 0xB8, CHR 0xD0, CHR 0xB7, CHR 0xD0, CHR 0xB2, CHR 0xD0, CHR 0xB5, CHR 0xD1, CHR 0x81, CHR 0xD1, CHR 0x82, CHR 0xD0, CHR 0xBD, CHR 0xD0, CHR 0xB0, CHR 0xD1, CHR 0x8F, CHR 0x20, CHR 0xD0, CHR 0xBE, CHR 0xD1, CHR 0x88, CHR 0xD0, CHR 0xB8, CHR 0xD0, CHR 0xB1, CHR 0xD0, CHR 0xBA, CHR 0xD0, CHR 0xB0]"

definition getWeatherDescription :: "jsval \<Rightarrow> string" where
  "getWeatherDescription code = or_else (lookup_number weatherCodes code) description_fallback"

definition getWeatherIcon :: "jsval \<Rightarrow> string" where
  "getWeatherIcon code = or_else (lookup_number iconMap code) ''01d''"

definition getWeatherIconUrl :: "jsval \<Rightarrow> string" where
  "getWeatherIconUrl code =
     (let icon = getWeatherIcon code in ''https://openweathermap.org/img/wn/'' @ icon @ ''@2x.png'')"

text \<open>\<^verbatim>\<open>getWindDirection\<close>; \<open>None\<close> is \<^verbatim>\<open>undefined\<close>.\<close>

definition getWindDirection :: "jsval \<Rightarrow> string option" where
  "getWindDirection deg =
     (let index = js_rem (Math_round (js_div deg (Num 45))) (Num 8)
      in index_number directions index)"

text \<open>\<^verbatim>\<open>getAlternativeIcon\<close>: the value of \<^verbatim>\<open>iconMap[iconCode] || fallback\<close> is a string, or
  the member of \<^verbatim>\<open>Object.prototype\<close> that the key names.\<close>

datatype glyph = Str string | PrototypeMember string

definition getAlternativeIcon :: "string \<Rightarrow> glyph" where
  "getAlternativeIcon iconCode =
     (case lookup_string alternativeIconMap iconCode of
        Own s \<Rightarrow> Str (if s = [] then glyph_fallback else s)
      | Inherited name \<Rightarrow> PrototypeMember name
      | Absent \<Rightarrow> Str glyph_fallback)"

section \<open>Payloads and normalised records\<close>

text \<open>The interfaces of the source.  The three anonymous object types of
  \<^verbatim>\<open>OpenMeteoResponse\<close> are the records \<open>CurrentWeather\<close>, \<open>Hourly\<close> and \<open>Daily\<close>; an
  optional property is an \<open>option\<close>.  Several interfaces share field names, so a field
  is written with its record's name, \<open>Hourly.time h\<close>.\<close>

record CurrentWeather =
  temperature :: rat
  windspeed :: rat
  winddirection :: rat
  weathercode :: rat
  time :: string

record Hourly =
  time :: "string list"
  temperature_2m :: "rat list"
  apparent_temperature :: "rat list"
  relative_humidity_2m :: "rat list"
  pressure_msl :: "rat list"
  cloudcover :: "rat list"
  visibility :: "rat list"
  windspeed_10m :: "rat list"
  winddirection_10m :: "rat list"
  weathercode :: "rat list"

record Daily =
  time :: "string list"
  temperature_2m_max :: "rat list"
  temperature_2m_min :: "rat list"
  sunrise :: "string list"
  sunset :: "string list"
  weathercode :: "rat list"

record OpenMeteoResponse =
  latitude :: rat
  longitude :: rat
  current_weather :: "CurrentWeather option"
  hourly :: "Hourly option"
  daily :: "Daily option"

record Address =
  city :: "string option"
  town :: "string option"
  village :: "string option"
  state :: "string option"
  country :: "string option"
  country_code :: "string option"

record NominatimResponse =
  lat :: string
  lon :: string
  display_name :: string
  address :: "Address option"

text \<open>A \<^verbatim>\<open>Date\<close> object is the argument it was constructed from (\<open>None\<close> is
  \<^verbatim>\<open>undefined\<close>); how the runtime reads it is in the record \<open>runtime\<close>.\<close>

datatype Date = NewDate "string option"

text \<open>What the program takes from the JavaScript runtime and the clock:
  \<^verbatim>\<open>Date.prototype.toDateString\<close> (the calendar date, in the runtime's time zone, of a
  \<^verbatim>\<open>Date\<close>), \<^verbatim>\<open>String.prototype.toUpperCase\<close>, and \<^verbatim>\<open>new Date().getHours()\<close>,
  the current local hour.\<close>

record runtime =
  toDateString :: "Date \<Rightarrow> string"
  toUpperCase :: "string \<Rightarrow> string"
  getHours :: nat

record WeatherData =
  temp :: jsval
  tempMin :: jsval
  tempMax :: jsval
  feelsLike :: jsval
  humidity :: jsval
  pressure :: jsval
  windSpeed :: jsval
  windDeg :: jsval
  clouds :: jsval
  visibility :: jsval
  description :: string
  icon :: string
  iconUrl :: string
  cityName :: string
  country :: string
  sunrise :: Date
  sunset :: Date
  dt :: Date

record HourlyWeatherData =
  dt :: Date
  temp :: jsval
  feelsLike :: jsval
  humidity :: jsval
  pressure :: jsval
  windSpeed :: jsval
  windDeg :: jsval
  clouds :: jsval
  description :: string
  icon :: string
  iconUrl :: string

record DailyForecast =
  date :: Date
  tempMin :: jsval
  tempMax :: jsval
  tempAvg :: jsval
  humidity :: jsval
  pressure :: jsval
  windSpeed :: jsval
  description :: string
  icon :: string
  iconUrl :: string
  hourly :: "HourlyWeatherData list"

record ForecastData =
  city :: string
  country :: string
  forecast :: "DailyForecast list"

text \<open>The type \<^verbatim>\<open>{ city: string; country: string }\<close> of a location label, and the result
  type \<^verbatim>\<open>{ current: WeatherData; forecast: ForecastData }\<close>.\<close>

record Location =
  city :: string
  country :: string

record WeatherAndForecast =
  current :: WeatherData
  forecast :: ForecastData

text \<open>What a \<^verbatim>\<open>catch\<close> can receive: an \<^verbatim>\<open>AxiosError\<close> (the status of its
  \<^verbatim>\<open>response\<close> if it has one, whether it has a \<^verbatim>\<open>request\<close>, its message), a
  \<^verbatim>\<open>TypeError\<close> raised by reading a property of \<^verbatim>\<open>undefined\<close>, or a plain
  \<^verbatim>\<open>Error\<close>.  The text of a \<^verbatim>\<open>TypeError\<close> is the engine's; it names the property read.\<close>

datatype exn = AxiosError "int option" bool string | TypeError string | Error string

section \<open>The service\<close>

text \<open>The double that the literal \<^verbatim>\<open>0.750062\<close> denotes, and the text of the
  \<^verbatim>\<open>TypeError\<close> for a read of \<open>property\<close> of \<^verbatim>\<open>undefined\<close>, with the quotes (character
  \<open>0x27\<close>) that the engine puts around the name.\<close>

definition mmHg_per_hPa :: rat where
  "mmHg_per_hPa = 3377978943704769 / 4503599627370496"

definition cannot_read :: "string \<Rightarrow> string" where
  "cannot_read property =
     ''Cannot read properties of undefined (reading '' @ [CHR 0x27] @ property @ [CHR 0x27] @ '')''"

fun handleError :: "exn \<Rightarrow> exn" where
  "handleError (AxiosError (Some status) request message) =
     Error (if status = 404 then msg_not_found
            else if status = 429 then msg_rate_limit
            else msg_server)"
| "handleError (AxiosError None request message) =
     (if request then Error msg_no_connection
      else Error (if message = [] then msg_unknown else message))"
| "handleError (TypeError message) = Error (if message = [] then msg_unknown else message)"
| "handleError (Error message) = Error (if message = [] then msg_unknown else message)"

text \<open>\<^verbatim>\<open>getCityNameByCoords\<close>: the argument is how the awaited reverse lookup ended, with
  the thrown error or with the response's data.\<close>

definition getCityNameByCoords :: "runtime \<Rightarrow> exn + NominatimResponse \<Rightarrow> Location" where
  "getCityNameByCoords rt response =
     (case response of
        Inr data \<Rightarrow>
          \<lparr> Location.city =
              or_else (Option.bind (address data) Address.city)
                (or_else (Option.bind (address data) Address.town)
                  (or_else (Option.bind (address data) Address.village) ''Unknown'')),
            Location.country =
              or_else (map_option (toUpperCase rt) (Option.bind (address data) country_code)) [] \<rparr>
      | Inl error \<Rightarrow> \<lparr> Location.city = ''Unknown'', Location.country = [] \<rparr>)"

definition formatCurrentWeather ::
    "runtime \<Rightarrow> OpenMeteoResponse \<Rightarrow> Location \<Rightarrow> exn + WeatherData" where
  "formatCurrentWeather rt data location =
     (let currentHour = getHours rt; todayIndex = 0 in
      case current_weather data of
        None \<Rightarrow> Inl (TypeError (cannot_read ''temperature''))
      | Some cur \<Rightarrow>
      (case daily data of
        None \<Rightarrow> Inl (TypeError (cannot_read ''temperature_2m_min''))
      | Some d \<Rightarrow>
      (case OpenMeteoResponse.hourly data of
        None \<Rightarrow> Inl (TypeError (cannot_read ''apparent_temperature''))
      | Some h \<Rightarrow>
        Inr \<lparr> WeatherData.temp = Math_round (Num (temperature cur)),
              WeatherData.tempMin = Math_round (Math_min (temperature_2m_min d)),
              WeatherData.tempMax = Math_round (Math_max (temperature_2m_max d)),
              WeatherData.feelsLike = Math_round (num_at (apparent_temperature h) currentHour),
              WeatherData.humidity = Math_round (num_at (relative_humidity_2m h) currentHour),
              WeatherData.pressure =
                Math_round (js_mul (num_at (pressure_msl h) currentHour) (Num mmHg_per_hPa)),
              WeatherData.windSpeed = Num (windspeed cur),
              WeatherData.windDeg = Num (winddirection cur),
              WeatherData.clouds = Math_round (num_at (cloudcover h) currentHour),
              WeatherData.visibility = Math_round (num_at (Hourly.visibility h) currentHour),
              WeatherData.description = getWeatherDescription (Num (CurrentWeather.weathercode cur)),
              WeatherData.icon = getWeatherIcon (Num (CurrentWeather.weathercode cur)),
              WeatherData.iconUrl = getWeatherIconUrl (Num (CurrentWeather.weathercode cur)),
              cityName = Location.city location,
              WeatherData.country = Location.country location,
              WeatherData.sunrise = NewDate (str_at (Daily.sunrise d) todayIndex),
              WeatherData.sunset = NewDate (str_at (Daily.sunset d) todayIndex),
              WeatherData.dt = NewDate (Some (CurrentWeather.time cur)) \<rparr>)))"

text \<open>The object that the \<^verbatim>\<open>forEach\<close> callback of \<^verbatim>\<open>formatForecast\<close> pushes for the
  hourly-axis entry at \<open>index\<close>.\<close>

definition hourlySample :: "Hourly \<Rightarrow> Date \<Rightarrow> nat \<Rightarrow> HourlyWeatherData" where
  "hourlySample h hourDate index =
     \<lparr> HourlyWeatherData.dt = hourDate,
       HourlyWeatherData.temp = Math_round (num_at (temperature_2m h) index),
       HourlyWeatherData.feelsLike = Math_round (num_at (apparent_temperature h) index),
       HourlyWeatherData.humidity = Math_round (num_at (relative_humidity_2m h) index),
       HourlyWeatherData.pressure =
         Math_round (js_mul (num_at (pressure_msl h) index) (Num mmHg_per_hPa)),
       HourlyWeatherData.windSpeed = num_at (windspeed_10m h) index,
       HourlyWeatherData.windDeg = num_at (winddirection_10m h) index,
       HourlyWeatherData.clouds = Math_round (num_at (cloudcover h) index),
       HourlyWeatherData.description = getWeatherDescription (num_at (Hourly.weathercode h) index),
       HourlyWeatherData.icon = getWeatherIcon (num_at (Hourly.weathercode h) index),
       HourlyWeatherData.iconUrl = getWeatherIconUrl (num_at (Hourly.weathercode h) index) \<rparr>"

text \<open>The \<^verbatim>\<open>forEach\<close> over \<^verbatim>\<open>data.hourly.time\<close>: the callback runs on every element with
  its index, in order, and pushes when the two date strings are equal.\<close>

definition hourlyData_for :: "runtime \<Rightarrow> Hourly \<Rightarrow> Date \<Rightarrow> HourlyWeatherData list" where
  "hourlyData_for rt h day =
     fold (\<lambda>(tm, index) hourlyData.
             let hourDate = NewDate (Some tm) in
             if toDateString rt hourDate = toDateString rt day
             then hourlyData @ [hourlySample h hourDate index]
             else hourlyData)
       (zip (Hourly.time h) [0..<length (Hourly.time h)]) []"

text \<open>One pass of the \<^verbatim>\<open>for\<close> loop of \<^verbatim>\<open>formatForecast\<close>: the day pushed for index
  \<open>i\<close>.  Each \<^verbatim>\<open>reduce\<close> is a left fold from 0.\<close>

definition dailyForecast_at :: "runtime \<Rightarrow> Daily \<Rightarrow> Hourly \<Rightarrow> nat \<Rightarrow> DailyForecast" where
  "dailyForecast_at rt d h i =
     (let day = NewDate (str_at (Daily.time d) i);
          hourlyData = hourlyData_for rt h day;
          avgHumidity =
            js_div (fold (\<lambda>x sum. js_add sum (HourlyWeatherData.humidity x)) hourlyData (Num 0))
              (Num (of_nat (length hourlyData)));
          avgPressure =
            js_div (fold (\<lambda>x sum. js_add sum (HourlyWeatherData.pressure x)) hourlyData (Num 0))
              (Num (of_nat (length hourlyData)));
          avgWindSpeed =
            js_div (fold (\<lambda>x sum. js_add sum (HourlyWeatherData.windSpeed x)) hourlyData (Num 0))
              (Num (of_nat (length hourlyData)))
      in \<lparr> date = day,
           DailyForecast.tempMin = Math_round (num_at (temperature_2m_min d) i),
           DailyForecast.tempMax = Math_round (num_at (temperature_2m_max d) i),
           tempAvg =
             Math_round (js_div (js_add (num_at (temperature_2m_min d) i)
                                        (num_at (temperature_2m_max d) i)) (Num 2)),
           DailyForecast.humidity = Math_round avgHumidity,
           DailyForecast.pressure = Math_round avgPressure,
           DailyForecast.windSpeed = js_div (Math_round (js_mul avgWindSpeed (Num 10))) (Num 10),
           DailyForecast.description = getWeatherDescription (num_at (Daily.weathercode d) i),
           DailyForecast.icon = getWeatherIcon (num_at (Daily.weathercode d) i),
           DailyForecast.iconUrl = getWeatherIconUrl (num_at (Daily.weathercode d) i),
           DailyForecast.hourly = hourlyData \<rparr>)"

text \<open>\<^verbatim>\<open>formatForecast\<close>.  The loop bound reads \<^verbatim>\<open>data.daily.time\<close>; the body reads
  \<^verbatim>\<open>data.hourly.time\<close>, so a payload without the hourly axis throws in the first pass,
  and does not throw when the loop makes no pass.\<close>

definition formatForecast ::
    "runtime \<Rightarrow> OpenMeteoResponse \<Rightarrow> Location \<Rightarrow> exn + ForecastData" where
  "formatForecast rt data location =
     (case daily data of
        None \<Rightarrow> Inl (TypeError (cannot_read ''time''))
      | Some d \<Rightarrow>
      (let n = min 5 (length (Daily.time d)) in
       if n = 0
       then Inr \<lparr> ForecastData.city = Location.city location,
                  ForecastData.country = Location.country location,
                  ForecastData.forecast = [] \<rparr>
       else
      (case OpenMeteoResponse.hourly data of
        None \<Rightarrow> Inl (TypeError (cannot_read ''time''))
      | Some h \<Rightarrow>
        Inr \<lparr> ForecastData.city = Location.city location,
              ForecastData.country = Location.country location,
              ForecastData.forecast =
                fold (\<lambda>i dailyForecasts. dailyForecasts @ [dailyForecast_at rt d h i])
                  [0..<n] [] \<rparr>)))"

text \<open>\<^verbatim>\<open>getWeatherAndForecast\<close>.  The two awaited calls are the arguments \<open>response\<close>
  (the forecast request: the thrown error, or the response's data) and \<open>reverse\<close> (the
  reverse lookup made by \<^verbatim>\<open>getCityNameByCoords\<close>); whatever is thrown inside the
  \<^verbatim>\<open>try\<close> goes through \<^verbatim>\<open>handleError\<close>.  The coordinates and the units only
  shape the request, so they reach the result through \<open>response\<close> alone.\<close>

definition getWeatherAndForecast ::
    "runtime \<Rightarrow> exn + OpenMeteoResponse \<Rightarrow> exn + NominatimResponse \<Rightarrow> exn + WeatherAndForecast" where
  "getWeatherAndForecast rt response reverse =
     (case response of
        Inl error \<Rightarrow> Inl (handleError error)
      | Inr data \<Rightarrow>
      (let locationInfo = getCityNameByCoords rt reverse in
       case formatCurrentWeather rt data locationInfo of
         Inl error \<Rightarrow> Inl (handleError error)
       | Inr cur \<Rightarrow>
       (case formatForecast rt data locationInfo of
          Inl error \<Rightarrow> Inl (handleError error)
        | Inr fc \<Rightarrow> Inr \<lparr> current = cur, WeatherAndForecast.forecast = fc \<rparr>)))"

section \<open>The bucket of a day, by index\<close>

text \<open>The hourly-axis indices for which the condition of the \<^verbatim>\<open>forEach\<close> callback
  (\<^verbatim>\<open>hourDate.toDateString() === date.toDateString()\<close>) holds for the day \<open>day\<close>, in axis
  order: the indices of the samples that \<open>hourlyData_for\<close> pushes.\<close>

definition bucket :: "runtime \<Rightarrow> Hourly \<Rightarrow> Date \<Rightarrow> nat list" where
  "bucket rt h day =
     filter (\<lambda>j. toDateString rt (NewDate (Some (Hourly.time h ! j))) = toDateString rt day)
       [0..<length (Hourly.time h)]"

section \<open>Concrete inputs\<close>

text \<open>A runtime whose time zone is UTC, at a given hour of the day.  For a stamp
  \<^verbatim>\<open>YYYY-MM-DD\<close> or \<^verbatim>\<open>YYYY-MM-DDTHH:MM\<close>, as the provider writes them,
  \<^verbatim>\<open>toDateString\<close> renders the calendar date written in the stamp
  (\<^verbatim>\<open>Mon Jan 01 2024\<close>); here that date is rendered by the stamp's first ten characters,
  which agree exactly when the rendered dates do.  \<^verbatim>\<open>toUpperCase\<close> is given on ASCII.\<close>

definition ascii_upper :: "char \<Rightarrow> char" where
  "ascii_upper c =
     (let n = (of_char c :: nat) in if 97 \<le> n \<and> n \<le> 122 then char_of (n - 32) else c)"

definition utc_runtime :: "nat \<Rightarrow> runtime" where
  "utc_runtime hour =
     \<lparr> toDateString = (\<lambda>d. case d of NewDate (Some s) \<Rightarrow> take 10 s | NewDate None \<Rightarrow> ''Invalid Date''),
       toUpperCase = map ascii_upper,
       getHours = hour \<rparr>"

text \<open>The calendar date written in a stamp: the provider writes \<^verbatim>\<open>YYYY-MM-DD\<close> on the
  daily axis and \<^verbatim>\<open>YYYY-MM-DDTHH:MM\<close> on the hourly axis.\<close>

definition written_date :: "string \<Rightarrow> string" where
  "written_date stamp = take 10 stamp"

text \<open>The hourly-axis indices whose stamp carries the calendar date of \<open>stamp\<close>, in axis
  order.\<close>

definition date_indices :: "Hourly \<Rightarrow> string \<Rightarrow> nat list" where
  "date_indices h stamp =
     filter (\<lambda>j. written_date (Hourly.time h ! j) = written_date stamp)
       [0..<length (Hourly.time h)]"

text \<open>A runtime renders the written dates of the stamps \<open>stamps\<close> when the
  \<^verbatim>\<open>toDateString\<close> texts of two of them agree exactly when their written dates do.  The
  UTC runtime does; so does every runtime whose zone is at or ahead of UTC.\<close>

definition renders_written_dates :: "runtime \<Rightarrow> string list \<Rightarrow> bool" where
  "renders_written_dates rt stamps =
     (\<forall>s \<in> set stamps. \<forall>t \<in> set stamps.
        (toDateString rt (NewDate (Some s)) = toDateString rt (NewDate (Some t))) =
        (written_date s = written_date t))"

text \<open>A runtime whose zone is behind UTC by less than a day all year (America/New_York,
  say).  \<^verbatim>\<open>new Date\<close> reads a date-only stamp as midnight UTC, which locally is still
  the day before; it reads a stamp with a time and no offset as local time.  So
  \<^verbatim>\<open>toDateString\<close> renders the day before the written date of a date-only stamp, and
  the written date of a date-time stamp.\<close>

definition number_of :: "string \<Rightarrow> nat" where
  "number_of digits = foldl (\<lambda>n c. 10 * n + (of_char c - 48)) 0 digits"

definition two_digits :: "nat \<Rightarrow> string" where
  "two_digits n = [char_of (48 + n div 10 mod 10), char_of (48 + n mod 10)]"

definition iso_date :: "nat \<Rightarrow> nat \<Rightarrow> nat \<Rightarrow> string" where
  "iso_date y m d =
     two_digits (y div 100) @ two_digits (y mod 100) @ ''-'' @ two_digits m @ ''-'' @ two_digits d"

definition days_in_month :: "nat \<Rightarrow> nat \<Rightarrow> nat" where
  "days_in_month y m =
     (if m = 2
      then (if y mod 400 = 0 then 29 else if y mod 100 = 0 then 28
            else if y mod 4 = 0 then 29 else 28)
      else if m = 4 \<or> m = 6 \<or> m = 9 \<or> m = 11 then 30
      else 31)"

definition day_before :: "string \<Rightarrow> string" where
  "day_before stamp =
     (let y = number_of (take 4 stamp);
          m = number_of (take 2 (drop 5 stamp));
          d = number_of (take 2 (drop 8 stamp))
      in if 1 < d then iso_date y m (d - 1)
         else if 1 < m then iso_date y (m - 1) (days_in_month y (m - 1))
         else iso_date (y - 1) 12 31)"

definition west_runtime :: "nat \<Rightarrow> runtime" where
  "west_runtime hour =
     \<lparr> toDateString =
         (\<lambda>d. case d of
                NewDate (Some s) \<Rightarrow> (if length s = 10 then day_before s else written_date s)
              | NewDate None \<Rightarrow> ''Invalid Date''),
       toUpperCase = map ascii_upper,
       getHours = hour \<rparr>"

text \<open>A payload of two days whose hourly axis holds the first two hours of the first day
  (humidity 40 and 60); the daily minima are 5 and 8, the maxima 18 and 22.\<close>

definition snapshot_jan1 :: CurrentWeather where
  "snapshot_jan1 =
     \<lparr> temperature = 15, windspeed = 13 / 4, winddirection = 200,
       CurrentWeather.weathercode = 61, CurrentWeather.time = ''2024-01-01T10:00'' \<rparr>"

definition hourly_two :: Hourly where
  "hourly_two =
     \<lparr> Hourly.time = [''2024-01-01T00:00'', ''2024-01-01T01:00''],
       temperature_2m = [6, 15 / 2],
       apparent_temperature = [17 / 4, 11 / 2],
       relative_humidity_2m = [40, 60],
       pressure_msl = [4053 / 4, 1012],
       cloudcover = [75, 80],
       Hourly.visibility = [24140, 20000],
       windspeed_10m = [13 / 4, 7 / 2],
       winddirection_10m = [200, 210],
       Hourly.weathercode = [61, 3] \<rparr>"

definition daily_two :: Daily where
  "daily_two =
     \<lparr> Daily.time = [''2024-01-01'', ''2024-01-02''],
       temperature_2m_max = [18, 22],
       temperature_2m_min = [5, 8],
       Daily.sunrise = [''2024-01-01T08:58'', ''2024-01-02T08:58''],
       Daily.sunset = [''2024-01-01T16:07'', ''2024-01-02T16:08''],
       Daily.weathercode = [61, 3] \<rparr>"

definition payload_two :: OpenMeteoResponse where
  "payload_two =
     \<lparr> latitude = 223 / 4, longitude = 301 / 8,
       current_weather = Some snapshot_jan1,
       OpenMeteoResponse.hourly = Some hourly_two,
       daily = Some daily_two \<rparr>"

text \<open>The same payload with both wind speeds the double nearest to 0.15.\<close>

definition wind_015 :: rat where
  "wind_015 = 5404319552844595 / 36028797018963968"

definition payload_calm :: OpenMeteoResponse where
  "payload_calm =
     payload_two\<lparr>OpenMeteoResponse.hourly :=
       Some (hourly_two\<lparr>windspeed_10m := [wind_015, wind_015]\<rparr>)\<rparr>"

text \<open>A payload of seven days with one hourly sample, at noon, on each day.\<close>

definition hourly_week :: Hourly where
  "hourly_week =
     \<lparr> Hourly.time = [''2024-01-01T12:00'', ''2024-01-02T12:00'', ''2024-01-03T12:00'',
                      ''2024-01-04T12:00'', ''2024-01-05T12:00'', ''2024-01-06T12:00'',
                      ''2024-01-07T12:00''],
       temperature_2m = [1, 2, 3, 4, 5, 6, 7],
       apparent_temperature = [0, 1, 2, 3, 4, 5, 6],
       relative_humidity_2m = [40, 45, 50, 55, 60, 65, 70],
       pressure_msl = [1000, 1002, 1004, 1006, 1008, 1010, 1012],
       cloudcover = [10, 20, 30, 40, 50, 60, 70],
       Hourly.visibility = [10000, 10000, 10000, 10000, 10000, 10000, 10000],
       windspeed_10m = [1, 2, 3, 4, 5, 6, 7],
       winddirection_10m = [0, 45, 90, 135, 180, 225, 270],
       Hourly.weathercode = [0, 1, 2, 3, 45, 61, 71] \<rparr>"

definition daily_week :: Daily where
  "daily_week =
     \<lparr> Daily.time = [''2024-01-01'', ''2024-01-02'', ''2024-01-03'', ''2024-01-04'',
                     ''2024-01-05'', ''2024-01-06'', ''2024-01-07''],
       temperature_2m_max = [3, 4, 5, 6, 7, 8, 9],
       temperature_2m_min = [-3, -2, -1, 0, 1, 2, 3],
       Daily.sunrise = [''2024-01-01T08:58'', ''2024-01-02T08:58'', ''2024-01-03T08:58'',
                        ''2024-01-04T08:57'', ''2024-01-05T08:57'', ''2024-01-06T08:56'',
                        ''2024-01-07T08:56''],
       Daily.sunset = [''2024-01-01T16:07'', ''2024-01-02T16:08'', ''2024-01-03T16:09'',
                       ''2024-01-04T16:11'', ''2024-01-05T16:12'', ''2024-01-06T16:13'',
                       ''2024-01-07T16:15''],
       Daily.weathercode = [0, 1, 2, 3, 45, 61, 71] \<rparr>"

definition payload_week :: OpenMeteoResponse where
  "payload_week =
     \<lparr> latitude = 223 / 4, longitude = 301 / 8,
       current_weather = Some snapshot_jan1,
       OpenMeteoResponse.hourly = Some hourly_week,
       daily = Some daily_week \<rparr>"

definition moscow :: Location where
  "moscow = \<lparr> Location.city = ''Moscow'', Location.country = ''RU'' \<rparr>"

definition reverse_moscow :: NominatimResponse where
  "reverse_moscow =
     \<lparr> lat = ''55.75'', lon = ''37.625'', display_name = ''Moscow, Russia'',
       address = Some \<lparr> Address.city = Some ''Moscow'', town = None, village = None,
                        state = None, Address.country = Some ''Russia'',
                        country_code = Some ''ru'' \<rparr> \<rparr>"

section \<open>Double precision\<close>

text \<open>The exponent found by \<open>ilog2\<close> brackets its argument.\<close>

lemma ilog2_bounds:
  assumes "0 < x"
  shows "2 powi (ilog2 x) \<le> x" and "x < 2 powi (ilog2 x + 1)"
proof -
  obtain a b where q: "quotient_of x = (a, b)" by (cases "quotient_of x")
  then have b: "0 < b" and x: "x = of_int a / of_int b"
    by (simp_all add: quotient_of_denom_pos quotient_of_div)
  with assms have a: "0 < a"
    by (simp add: zero_less_divide_iff)
  define k where "k = bitlen a - bitlen b"
  have la: "1 \<le> bitlen a" and lb: "1 \<le> bitlen b"
    using a b bitlen_eq_zero_iff [of a] bitlen_eq_zero_iff [of b] bitlen_nonneg [of a] bitlen_nonneg [of b]
    by linarith+
  have a1: "(2::rat) powi (bitlen a - 1) \<le> of_int a" and a2: "rat_of_int a < 2 powi (bitlen a)"
  proof -
    from bitlen_bounds [OF a] have "2 ^ nat (bitlen a - 1) \<le> a" "a < 2 ^ nat (bitlen a)" by simp_all
    then have "rat_of_int (2 ^ nat (bitlen a - 1)) \<le> of_int a" "rat_of_int a < of_int (2 ^ nat (bitlen a))"
      by (simp_all only: of_int_le_iff of_int_less_iff)
    then show "(2::rat) powi (bitlen a - 1) \<le> of_int a" "rat_of_int a < 2 powi (bitlen a)"
      using la by (simp_all add: power_int_def)
  qed
  have b1: "(2::rat) powi (bitlen b - 1) \<le> of_int b" and b2: "rat_of_int b < 2 powi (bitlen b)"
  proof -
    from bitlen_bounds [OF b] have "2 ^ nat (bitlen b - 1) \<le> b" "b < 2 ^ nat (bitlen b)" by simp_all
    then have "rat_of_int (2 ^ nat (bitlen b - 1)) \<le> of_int b" "rat_of_int b < of_int (2 ^ nat (bitlen b))"
      by (simp_all only: of_int_le_iff of_int_less_iff)
    then show "(2::rat) powi (bitlen b - 1) \<le> of_int b" "rat_of_int b < 2 powi (bitlen b)"
      using lb by (simp_all add: power_int_def)
  qed
  have pos: "(0::rat) < 2 powi j" for j by simp
  have lo: "2 powi (k - 1) \<le> x"
  proof -
    have "(2::rat) powi (k - 1) = 2 powi (bitlen a - 1) / 2 powi (bitlen b)"
      by (simp add: k_def power_int_diff)
    also have "\<dots> \<le> of_int a / 2 powi (bitlen b)"
      using a1 by (simp add: divide_right_mono)
    also have "\<dots> \<le> of_int a / of_int b"
      using b2 a b by (simp add: frac_le)
    finally show ?thesis by (simp add: x)
  qed
  have hi: "x < 2 powi (k + 1)"
  proof -
    have "x = of_int a / of_int b" by (rule x)
    also have "\<dots> < 2 powi (bitlen a) / of_int b"
      using a2 b by (simp add: divide_strict_right_mono)
    also have "\<dots> \<le> 2 powi (bitlen a) / 2 powi (bitlen b - 1)"
    proof (rule divide_left_mono [OF b1])
      show "(0::rat) \<le> 2 powi bitlen a" by simp
      show "0 < rat_of_int b * 2 powi (bitlen b - 1)" using b by simp
    qed
    also have "\<dots> = 2 powi (k + 1)"
      by (simp add: k_def power_int_diff power_int_add)
    finally show ?thesis .
  qed
  have il: "ilog2 x = (if 2 powi k \<le> x then k else k - 1)"
    by (simp add: ilog2_def q k_def Let_def)
  show "2 powi (ilog2 x) \<le> x"
    using lo by (simp add: il)
  show "x < 2 powi (ilog2 x + 1)"
    using hi by (simp add: il not_le)
qed

text \<open>Rounding to an integer, ties to even: an integer is kept, and the result is within
  a half of the argument.\<close>

lemma round_half_even_of_int: "round_half_even (of_int z) = z"
  by (simp add: round_half_even_def)

lemma round_half_even_ge:
  assumes "of_int M \<le> y"
  shows "M \<le> round_half_even y"
proof -
  have "M \<le> \<lfloor>y\<rfloor>"
    using assms by (simp add: le_floor_iff)
  also have "\<lfloor>y\<rfloor> \<le> round_half_even y"
    by (simp add: round_half_even_def Let_def)
  finally show ?thesis .
qed

lemma round_half_even_less:
  assumes "y < of_int M - 1 / 2"
  shows "round_half_even y < M"
proof -
  have "round_half_even y \<le> \<lfloor>y + 1 / 2\<rfloor>"
    by (auto simp: round_half_even_def Let_def) linarith+
  also have "\<lfloor>y + 1 / 2\<rfloor> < M"
    using assms by (simp add: floor_less_iff)
  finally show ?thesis .
qed

text \<open>A result below \<open>2 ^ 53\<close> in magnitude is finite, and an integer below \<open>2 ^ 53\<close> in
  magnitude is a double.\<close>

lemma two_powi_less_iff: "(2::rat) powi m < 2 powi n \<longleftrightarrow> m < n"
proof
  assume "(2::rat) powi m < 2 powi n"
  show "m < n"
  proof (rule ccontr)
    assume "\<not> m < n"
    then have "n \<le> m" by simp
    then have "(2::rat) powi n \<le> 2 powi m"
      by (rule power_int_increasing) simp
    with \<open>(2::rat) powi m < 2 powi n\<close> show False by simp
  qed
next
  assume "m < n"
  then show "(2::rat) powi m < 2 powi n"
    by (rule power_int_strict_increasing) simp
qed

lemma two_powi_cancel: "(2::rat) powi j * 2 powi (- j) = 1"
  by (simp add: power_int_minus)

lemma nearest_scaled:
  "nearest x =
     of_int (round_half_even (x * 2 powi (- max (ilog2 \<bar>x\<bar> - 52) (- 1074)))) /
       2 powi (- max (ilog2 \<bar>x\<bar> - 52) (- 1074))"
  by (simp only: nearest_def Let_def power_int_minus divide_inverse inverse_inverse_eq)

lemma double_Num:
  assumes "x \<noteq> 0" and "\<bar>nearest x\<bar> < 2 ^ 53"
  shows "double x = Num (nearest x)"
proof -
  have "(2::rat) ^ 53 \<le> overflow_threshold"
    unfolding overflow_threshold_def by (rule power_increasing) simp_all
  with assms(2) have "\<bar>nearest x\<bar> < overflow_threshold"
    by (rule less_le_trans)
  then have "\<not> overflow_threshold \<le> nearest x" "\<not> nearest x \<le> - overflow_threshold"
    by (simp_all add: abs_less_iff)
  with assms(1) show ?thesis
    by (simp only: double_def Let_def if_False)
qed

lemma double_of_int:
  assumes "\<bar>z\<bar> < 2 ^ 53"
  shows "double (of_int z) = Num (of_int z)"
proof (cases "z = 0")
  case True
  then show ?thesis by (simp add: double_def)
next
  case False
  define x where "x = rat_of_int z"
  define e where "e = ilog2 \<bar>x\<bar>"
  have x0: "x \<noteq> 0" and x1: "1 \<le> \<bar>x\<bar>" and x53: "\<bar>x\<bar> < 2 powi 53"
  proof -
    show "x \<noteq> 0" using False by (simp add: x_def)
    have "1 \<le> \<bar>z\<bar>" using False by simp
    then have "rat_of_int 1 \<le> of_int \<bar>z\<bar>" by (simp only: of_int_le_iff)
    then show "1 \<le> \<bar>x\<bar>" by (simp add: x_def)
    have "rat_of_int \<bar>z\<bar> < of_int (2 ^ 53)" using assms by (simp only: of_int_less_iff)
    then show "\<bar>x\<bar> < 2 powi 53" by (simp add: x_def)
  qed
  have pos: "0 < \<bar>x\<bar>" using x0 by simp
  have lo: "2 powi e \<le> \<bar>x\<bar>" and hi: "\<bar>x\<bar> < 2 powi (e + 1)"
    unfolding e_def by (rule ilog2_bounds [OF pos])+
  have "(2::rat) powi 0 < 2 powi (e + 1)"
    using x1 hi by simp
  then have e0: "0 \<le> e"
    by (simp only: two_powi_less_iff)
  have "(2::rat) powi e < 2 powi 53"
    using lo x53 by (rule le_less_trans)
  then have e52: "e \<le> 52"
    by (simp only: two_powi_less_iff)
  define p where "p = max (e - 52) (- 1074)"
  have p: "- p = 52 - e"
    using e0 e52 by (simp add: p_def)
  have sc: "(2::rat) powi (- p) = of_int (2 ^ nat (52 - e))"
    using e52 by (simp add: p power_int_def)
  have "x * 2 powi (- p) = of_int (z * 2 ^ nat (52 - e))"
    by (simp add: sc x_def)
  then have r: "round_half_even (x * 2 powi (- p)) = z * 2 ^ nat (52 - e)"
    by (simp only: round_half_even_of_int)
  have pe: "max (ilog2 \<bar>x\<bar> - 52) (- 1074) = p"
    by (simp only: p_def e_def)
  have "nearest x = rat_of_int (z * 2 ^ nat (52 - e)) / of_int (2 ^ nat (52 - e))"
    apply (simp only: nearest_scaled pe r)
    apply (simp only: sc)
    done
  also have "\<dots> = x"
    by (simp add: x_def)
  finally have v: "nearest x = x" .
  have "\<bar>nearest x\<bar> < 2 ^ 53"
    using x53 by (simp add: v)
  with x0 have "double x = Num (nearest x)"
    by (rule double_Num)
  then have "double x = Num x" by (simp only: v)
  then show ?thesis by (simp only: x_def)
qed

text \<open>Rounding a quotient of integers to a multiple of \<open>1 / P\<close>, where \<open>P\<close> is an even
  integer above the divisor, does not move it across a half-integer.\<close>

lemma round_scaled_quotient:
  fixes s n c :: int and P :: rat
  assumes n: "0 < n" and P: "of_int n < P" and c: "P = 2 * of_int c"
  defines "q \<equiv> rat_of_int s / of_int n"
  shows "\<lfloor>of_int (round_half_even (q * P)) / P + 1 / 2\<rfloor> = \<lfloor>q + 1 / 2\<rfloor>"
proof -
  define k where "k = \<lfloor>q + 1 / 2\<rfloor>"
  have P0: "0 < P" using n P by (simp add: less_trans [of 0 "of_int n" P])
  have klo: "of_int k - 1 / 2 \<le> q" and khi: "q < of_int k + 1 / 2"
    unfolding k_def by linarith+
  have "rat_of_int ((2 * k - 1) * c) = (of_int k - 1 / 2) * P"
    by (simp add: c algebra_simps)
  also have "\<dots> \<le> q * P"
    using klo P0 by (simp add: mult_right_mono)
  finally have "(2 * k - 1) * c \<le> round_half_even (q * P)"
    by (rule round_half_even_ge)
  then have "rat_of_int ((2 * k - 1) * c) \<le> of_int (round_half_even (q * P))"
    by (simp only: of_int_le_iff)
  then have "(of_int k - 1 / 2) * P \<le> of_int (round_half_even (q * P))"
    by (simp add: c algebra_simps)
  then have lower: "of_int k - 1 / 2 \<le> of_int (round_half_even (q * P)) / P"
    using P0 by (simp add: pos_le_divide_eq)
  have "rat_of_int s < (of_int k + 1 / 2) * of_int n"
    using khi n by (simp add: q_def pos_divide_less_eq)
  then have "rat_of_int (2 * s) < of_int ((2 * k + 1) * n)"
    by (simp add: algebra_simps)
  then have "2 * s < (2 * k + 1) * n"
    by (simp only: of_int_less_iff)
  then have "2 * s + 1 \<le> (2 * k + 1) * n" by simp
  then have "rat_of_int (2 * s + 1) \<le> of_int ((2 * k + 1) * n)"
    by (simp only: of_int_le_iff)
  then have "rat_of_int s + 1 / 2 \<le> (of_int k + 1 / 2) * of_int n"
    by (simp add: algebra_simps)
  then have gap: "q + 1 / (2 * of_int n) \<le> of_int k + 1 / 2"
    using n by (simp add: q_def field_simps)
  have "1 / 2 < P / (2 * of_int n)"
    using n P by (simp add: field_simps)
  then have "q * P < (q + 1 / (2 * of_int n)) * P - 1 / 2"
    by (simp add: algebra_simps)
  also have "\<dots> \<le> (of_int k + 1 / 2) * P - 1 / 2"
    using gap P0 by (simp add: mult_right_mono)
  also have "(of_int k + 1 / 2) * P = rat_of_int ((2 * k + 1) * c)"
    by (simp add: c algebra_simps)
  finally have "round_half_even (q * P) < (2 * k + 1) * c"
    by (rule round_half_even_less)
  then have "rat_of_int (round_half_even (q * P)) < of_int ((2 * k + 1) * c)"
    by (simp only: of_int_less_iff)
  then have "of_int (round_half_even (q * P)) < (of_int k + 1 / 2) * P"
    by (simp add: c algebra_simps)
  then have upper: "of_int (round_half_even (q * P)) / P < of_int k + 1 / 2"
    using P0 by (simp add: pos_divide_less_eq)
  from lower upper have "\<lfloor>of_int (round_half_even (q * P)) / P + 1 / 2\<rfloor> = k"
    by (intro floor_unique) simp_all
  then show ?thesis by (simp add: k_def)
qed

text \<open>The quotient of two integers below \<open>2 ^ 52\<close> in magnitude, rounded to double
  precision, has the same \<^verbatim>\<open>Math.round\<close> as the exact quotient.\<close>

lemma double_quotient:
  fixes s n :: int
  assumes n: "0 < n" "n < 2 ^ 52" and s: "\<bar>s\<bar> < 2 ^ 52"
  shows "\<exists>v. double (of_int s / of_int n) = Num v
     \<and> \<lfloor>v + 1 / 2\<rfloor> = \<lfloor>rat_of_int s / of_int n + 1 / 2\<rfloor>"
proof (cases "s = 0")
  case True
  then show ?thesis by (simp add: double_def)
next
  case False
  define q where "q = rat_of_int s / of_int n"
  define e where "e = ilog2 \<bar>q\<bar>"
  define p where "p = max (e - 52) (- 1074)"
  define P where "P = (2::rat) powi (- p)"
  have q0: "q \<noteq> 0"
    using False n by (simp add: q_def)
  then have pos: "0 < \<bar>q\<bar>" by simp
  have lo: "2 powi e \<le> \<bar>q\<bar>"
    unfolding e_def by (rule ilog2_bounds [OF pos])
  have qs: "\<bar>q\<bar> * of_int n = \<bar>rat_of_int s\<bar>"
    using n by (simp add: q_def abs_divide)
  have n1: "(1::rat) \<le> of_int n"
    using n by simp
  have s52: "\<bar>rat_of_int s\<bar> < 2 powi 52"
  proof -
    have "rat_of_int \<bar>s\<bar> < of_int (2 ^ 52)" using s by (simp only: of_int_less_iff)
    then show ?thesis by simp
  qed
  have "\<bar>q\<bar> * 1 \<le> \<bar>q\<bar> * of_int n"
    using n1 by (intro mult_left_mono) simp_all
  then have "\<bar>q\<bar> \<le> \<bar>rat_of_int s\<bar>"
    by (simp only: qs mult_1_right)
  then have "\<bar>q\<bar> < 2 powi 52"
    using s52 by (rule le_less_trans)
  with lo have "(2::rat) powi e < 2 powi 52"
    by (rule le_less_trans)
  then have e: "e < 52"
    by (simp only: two_powi_less_iff)
  then have p1: "1 \<le> - p"
    by (simp add: p_def)
  have "P = 2 powi (1 + (- p - 1))"
    by (simp add: P_def)
  also have "\<dots> = 2 * 2 powi (- p - 1)"
    by (subst power_int_add) simp_all
  also have "(2::rat) powi (- p - 1) = of_int (2 ^ nat (- p - 1))"
    using p1 by (simp add: power_int_def)
  finally have c: "P = 2 * of_int (2 ^ nat (- p - 1))" .
  have "of_int n * 2 powi e \<le> of_int n * \<bar>q\<bar>"
    using lo n by (intro mult_left_mono) simp_all
  also have "\<dots> = \<bar>rat_of_int s\<bar>"
    by (simp only: qs [symmetric] mult.commute)
  also have "\<dots> < 2 powi 52"
    by (rule s52)
  finally have "rat_of_int n * 2 powi e < 2 powi 52" .
  then have "rat_of_int n * 2 powi e * 2 powi (- e) < 2 powi 52 * 2 powi (- e)"
    by (rule mult_strict_right_mono) simp
  moreover have "rat_of_int n * 2 powi e * 2 powi (- e) = of_int n"
    by (simp only: mult.assoc two_powi_cancel mult_1_right)
  moreover have "(2::rat) powi 52 * 2 powi (- e) = 2 powi (52 - e)"
    by (subst power_int_add [symmetric]) simp_all
  ultimately have nA: "rat_of_int n < 2 powi (52 - e)"
    by (simp only:)
  have "rat_of_int n < of_int (2 ^ 52)"
    using n(2) by (simp only: of_int_less_iff)
  also have "rat_of_int (2 ^ 52) = 2 powi 52" by simp
  also have "(2::rat) powi 52 \<le> 2 powi 1074"
    by (rule power_int_increasing) simp_all
  finally have nB: "rat_of_int n < 2 powi 1074" .
  have "- p = 52 - e \<or> - p = 1074"
    by (auto simp: p_def max_def)
  with nA nB have nP: "of_int n < P"
    by (auto simp: P_def)
  from round_scaled_quotient [OF n(1) nP c, of s]
  have fl: "\<lfloor>of_int (round_half_even (q * P)) / P + 1 / 2\<rfloor> = \<lfloor>q + 1 / 2\<rfloor>"
    by (simp only: q_def)
  have v: "nearest q = of_int (round_half_even (q * P)) / P"
    by (simp only: nearest_scaled P_def p_def e_def)
  have fl': "\<lfloor>nearest q + 1 / 2\<rfloor> = \<lfloor>q + 1 / 2\<rfloor>"
    by (simp only: v fl)
  have qlt: "\<bar>q\<bar> < 2 ^ 52"
    using \<open>\<bar>q\<bar> < 2 powi 52\<close> by simp
  have "nearest q + 1 / 2 < of_int \<lfloor>nearest q + 1 / 2\<rfloor> + 1" by linarith
  also have "\<dots> = of_int \<lfloor>q + 1 / 2\<rfloor> + 1" by (simp only: fl')
  also have "\<dots> \<le> q + 1 / 2 + 1" by linarith
  finally have up: "nearest q < q + 1" by simp
  have "q + 1 / 2 < of_int \<lfloor>q + 1 / 2\<rfloor> + 1" by linarith
  also have "\<dots> = of_int \<lfloor>nearest q + 1 / 2\<rfloor> + 1" by (simp only: fl')
  also have "\<dots> \<le> nearest q + 1 / 2 + 1" by linarith
  finally have dn: "q - 1 < nearest q" by simp
  have "\<bar>nearest q\<bar> < 2 ^ 52 + 1"
    using up dn qlt by (simp add: abs_less_iff)
  also have "(2::rat) ^ 52 + 1 \<le> 2 ^ 53" by simp
  finally have "\<bar>nearest q\<bar> < 2 ^ 53" .
  with q0 have "double q = Num (nearest q)"
    by (rule double_Num)
  with fl' show ?thesis
    unfolding q_def by (intro exI [of _ "nearest (rat_of_int s / rat_of_int n)"] conjI)
qed

text \<open>The overflow threshold as a numeral, for evaluation.\<close>

lemma overflow_threshold_numeral [code]:
  "overflow_threshold =
     179769313486231590772930519078902473361797697894230657273430081157732675805500963132708477322407536021120113879871393357658789768814416622492847430639474124377767893424865485276302219601246094119453082952085005768838150682342462881473913110540827237163350510684586298239947245938479716304835356329624224137216"
  unfolding overflow_threshold_def by simp

section \<open>The loops as list functions\<close>

text \<open>A loop that pushes is a \<open>map\<close>; a loop that pushes under a condition is a
  \<open>map\<close> over a \<open>filter\<close>.\<close>

lemma fold_push_map: "fold (\<lambda>i acc. acc @ [f i]) xs acc = acc @ map f xs"
  by (induction xs arbitrary: acc) simp_all

lemma fold_push_filter:
  "fold (\<lambda>x acc. if P x then acc @ [g x] else acc) xs acc = acc @ map g (filter P xs)"
  by (induction xs arbitrary: acc) simp_all

lemma zip_indices: "zip xs [0..<length xs] = map (\<lambda>j. (xs ! j, j)) [0..<length xs]"
  by (rule nth_equalityI) simp_all

lemma hourlyData_for_bucket:
  "hourlyData_for rt h day =
     map (\<lambda>j. hourlySample h (NewDate (Some (Hourly.time h ! j))) j) (bucket rt h day)"
proof -
  have "hourlyData_for rt h day =
      fold (\<lambda>x acc. if toDateString rt (NewDate (Some (fst x))) = toDateString rt day
                      then acc @ [hourlySample h (NewDate (Some (fst x))) (snd x)] else acc)
        (zip (Hourly.time h) [0..<length (Hourly.time h)]) []"
    by (simp add: hourlyData_for_def Let_def split_def)
  also have "\<dots> = map (\<lambda>x. hourlySample h (NewDate (Some (fst x))) (snd x))
      (filter (\<lambda>x. toDateString rt (NewDate (Some (fst x))) = toDateString rt day)
         (zip (Hourly.time h) [0..<length (Hourly.time h)]))"
    by (simp add: fold_push_filter)
  also have "\<dots> = map (\<lambda>j. hourlySample h (NewDate (Some (Hourly.time h ! j))) j) (bucket rt h day)"
    by (simp add: zip_indices filter_map bucket_def comp_def)
  finally show ?thesis .
qed

lemma hourlySample_dt: "HourlyWeatherData.dt (hourlySample h hourDate index) = hourDate"
  by (simp add: hourlySample_def)

lemma hourlyData_for_filter:
  "hourlyData_for rt h day =
     filter (\<lambda>s. toDateString rt (HourlyWeatherData.dt s) = toDateString rt day)
       (map (\<lambda>j. hourlySample h (NewDate (Some (Hourly.time h ! j))) j) [0..<length (Hourly.time h)])"
  by (simp add: hourlyData_for_bucket bucket_def filter_map comp_def hourlySample_dt)

lemma formatForecast_Inr:
  assumes "daily data = Some d" and "OpenMeteoResponse.hourly data = Some h"
  shows "formatForecast rt data location =
     Inr \<lparr> ForecastData.city = Location.city location,
           ForecastData.country = Location.country location,
           ForecastData.forecast =
             map (dailyForecast_at rt d h) [0..<min 5 (length (Daily.time d))] \<rparr>"
  using assms by (simp add: formatForecast_def Let_def fold_push_map)

lemma dailyForecast_at_date:
  "i < length (Daily.time d) \<Longrightarrow> date (dailyForecast_at rt d h i) = NewDate (Some (Daily.time d ! i))"
  by (simp add: dailyForecast_at_def Let_def str_at_def)

lemma dailyForecast_at_hourly:
  "DailyForecast.hourly (dailyForecast_at rt d h i) = hourlyData_for rt h (date (dailyForecast_at rt d h i))"
  by (simp add: dailyForecast_at_def Let_def)

text \<open>The fields of a day in terms of its bucket.\<close>

lemma dailyForecast_at_day:
  "date (dailyForecast_at rt d h i) = NewDate (str_at (Daily.time d) i)"
  by (simp add: dailyForecast_at_def Let_def)

lemma dailyForecast_at_bucket:
  "DailyForecast.hourly (dailyForecast_at rt d h i) =
     map (\<lambda>j. hourlySample h (NewDate (Some (Hourly.time h ! j))) j)
       (bucket rt h (NewDate (str_at (Daily.time d) i)))"
  by (simp only: dailyForecast_at_hourly dailyForecast_at_day hourlyData_for_bucket)

lemma dailyForecast_at_dts:
  "map HourlyWeatherData.dt (DailyForecast.hourly (dailyForecast_at rt d h i)) =
     map (\<lambda>j. NewDate (Some (Hourly.time h ! j)))
       (bucket rt h (NewDate (str_at (Daily.time d) i)))"
  by (simp add: dailyForecast_at_bucket hourlySample_dt comp_def)

lemma dailyForecast_at_humidity:
  "DailyForecast.humidity (dailyForecast_at rt d h i) =
     Math_round (js_div
       (fold (\<lambda>v sum. js_add sum v)
          (map (\<lambda>j. Math_round (num_at (relative_humidity_2m h) j))
             (bucket rt h (NewDate (str_at (Daily.time d) i)))) (Num 0))
       (Num (of_nat (length (bucket rt h (NewDate (str_at (Daily.time d) i)))))))"
proof -
  have "DailyForecast.humidity (dailyForecast_at rt d h i) =
     Math_round (js_div
       (fold (\<lambda>x sum. js_add sum (HourlyWeatherData.humidity x))
          (DailyForecast.hourly (dailyForecast_at rt d h i)) (Num 0))
       (Num (of_nat (length (DailyForecast.hourly (dailyForecast_at rt d h i))))))"
    by (simp add: dailyForecast_at_def Let_def)
  also have "\<dots> =
     Math_round (js_div
       (fold (\<lambda>x sum. js_add sum (HourlyWeatherData.humidity x))
          (map (\<lambda>j. hourlySample h (NewDate (Some (Hourly.time h ! j))) j)
             (bucket rt h (NewDate (str_at (Daily.time d) i)))) (Num 0))
       (Num (of_nat (length (bucket rt h (NewDate (str_at (Daily.time d) i)))))))"
    by (simp only: dailyForecast_at_bucket length_map)
  also have "\<dots> =
     Math_round (js_div
       (fold (\<lambda>v sum. js_add sum v)
          (map (\<lambda>j. Math_round (num_at (relative_humidity_2m h) j))
             (bucket rt h (NewDate (str_at (Daily.time d) i)))) (Num 0))
       (Num (of_nat (length (bucket rt h (NewDate (str_at (Daily.time d) i)))))))"
    by (simp only: fold_map comp_def hourlySample_def HourlyWeatherData.simps)
  finally show ?thesis .
qed

text \<open>The forecasts of the example payloads, for every runtime.\<close>

lemma payload_two_forecast:
  "formatForecast rt payload_two location =
     Inr \<lparr> ForecastData.city = Location.city location,
           ForecastData.country = Location.country location,
           ForecastData.forecast =
             [dailyForecast_at rt daily_two hourly_two 0,
              dailyForecast_at rt daily_two hourly_two 1] \<rparr>"
proof -
  have d: "daily payload_two = Some daily_two"
    and h: "OpenMeteoResponse.hourly payload_two = Some hourly_two"
    by (simp_all add: payload_two_def)
  have n: "[0..<min 5 (length (Daily.time daily_two))] = [0, 1]"
    by code_simp
  show ?thesis
    by (simp only: formatForecast_Inr [OF d h] n list.map)
qed

lemma payload_week_forecast:
  "formatForecast rt payload_week location =
     Inr \<lparr> ForecastData.city = Location.city location,
           ForecastData.country = Location.country location,
           ForecastData.forecast =
             map (dailyForecast_at rt daily_week hourly_week) [0, 1, 2, 3, 4] \<rparr>"
proof -
  have d: "daily payload_week = Some daily_week"
    and h: "OpenMeteoResponse.hourly payload_week = Some hourly_week"
    by (simp_all add: payload_week_def)
  have n: "[0..<min 5 (length (Daily.time daily_week))] = [0, 1, 2, 3, 4]"
    by code_simp
  show ?thesis
    by (simp only: formatForecast_Inr [OF d h] n)
qed

text \<open>What \<^verbatim>\<open>formatForecast\<close> returns, for every runtime.  For every payload with an
  hourly axis whose daily axis has \<open>d \<ge> 1\<close> entries, the forecast has exactly \<open>min 5 d\<close> days;
  day \<open>i\<close> is built from daily-axis entry \<open>i\<close> (its date, minimum, maximum and weather
  code), so the days come in the order of the daily axis; the hourly sequence of a day is
  the sequence of normalised hourly-axis samples, in axis order, restricted to those whose
  \<^verbatim>\<open>toDateString\<close> text equals that of the day.\<close>

lemma formatForecast_days:
  assumes "daily data = Some d" and "OpenMeteoResponse.hourly data = Some h"
    and "1 \<le> length (Daily.time d)"
  shows "\<exists>f. formatForecast rt data location = Inr f
     \<and> length (ForecastData.forecast f) = min 5 (length (Daily.time d))
     \<and> (\<forall>i < min 5 (length (Daily.time d)).
          date (ForecastData.forecast f ! i) = NewDate (Some (Daily.time d ! i))
        \<and> DailyForecast.tempMin (ForecastData.forecast f ! i) =
            Math_round (num_at (temperature_2m_min d) i)
        \<and> DailyForecast.tempMax (ForecastData.forecast f ! i) =
            Math_round (num_at (temperature_2m_max d) i)
        \<and> DailyForecast.description (ForecastData.forecast f ! i) =
            getWeatherDescription (num_at (Daily.weathercode d) i)
        \<and> DailyForecast.hourly (ForecastData.forecast f ! i) =
            filter (\<lambda>s. toDateString rt (HourlyWeatherData.dt s) =
                        toDateString rt (date (ForecastData.forecast f ! i)))
              (map (\<lambda>j. hourlySample h (NewDate (Some (Hourly.time h ! j))) j)
                 [0..<length (Hourly.time h)]))
     \<and> (\<forall>before. sorted_wrt before (map (\<lambda>s. NewDate (Some s)) (Daily.time d))
           \<longrightarrow> sorted_wrt before (map date (ForecastData.forecast f)))"
proof -
  let ?n = "min 5 (length (Daily.time d))"
  let ?f = "\<lparr> ForecastData.city = Location.city location,
           ForecastData.country = Location.country location,
           ForecastData.forecast = map (dailyForecast_at rt d h) [0..<?n] \<rparr>"
  have res: "formatForecast rt data location = Inr ?f"
    using assms(1,2) by (rule formatForecast_Inr)
  have len: "length (ForecastData.forecast ?f) = ?n" by simp
  have day: "date (ForecastData.forecast ?f ! i) = NewDate (Some (Daily.time d ! i))"
    if "i < ?n" for i
    using that by (simp add: dailyForecast_at_date)
  have axis: "DailyForecast.tempMin (ForecastData.forecast ?f ! i) =
            Math_round (num_at (temperature_2m_min d) i)
        \<and> DailyForecast.tempMax (ForecastData.forecast ?f ! i) =
            Math_round (num_at (temperature_2m_max d) i)
        \<and> DailyForecast.description (ForecastData.forecast ?f ! i) =
            getWeatherDescription (num_at (Daily.weathercode d) i)"
    if "i < ?n" for i
    using that by (simp add: dailyForecast_at_def Let_def)
  have hrs: "DailyForecast.hourly (ForecastData.forecast ?f ! i) =
            filter (\<lambda>s. toDateString rt (HourlyWeatherData.dt s) =
                        toDateString rt (date (ForecastData.forecast ?f ! i)))
              (map (\<lambda>j. hourlySample h (NewDate (Some (Hourly.time h ! j))) j)
                 [0..<length (Hourly.time h)])"
    if "i < ?n" for i
    using that by (simp add: dailyForecast_at_hourly hourlyData_for_filter)
  have dates: "map date (ForecastData.forecast ?f) = take 5 (map (\<lambda>s. NewDate (Some s)) (Daily.time d))"
    by (rule nth_equalityI) (simp_all add: dailyForecast_at_date)
  have ord: "sorted_wrt before (map date (ForecastData.forecast ?f))"
    if "sorted_wrt before (map (\<lambda>s. NewDate (Some s)) (Daily.time d))" for before
    unfolding dates using that by (rule sorted_wrt_take)
  have days: "\<forall>i < ?n.
          date (ForecastData.forecast ?f ! i) = NewDate (Some (Daily.time d ! i))
        \<and> DailyForecast.tempMin (ForecastData.forecast ?f ! i) =
            Math_round (num_at (temperature_2m_min d) i)
        \<and> DailyForecast.tempMax (ForecastData.forecast ?f ! i) =
            Math_round (num_at (temperature_2m_max d) i)
        \<and> DailyForecast.description (ForecastData.forecast ?f ! i) =
            getWeatherDescription (num_at (Daily.weathercode d) i)
        \<and> DailyForecast.hourly (ForecastData.forecast ?f ! i) =
            filter (\<lambda>s. toDateString rt (HourlyWeatherData.dt s) =
                        toDateString rt (date (ForecastData.forecast ?f ! i)))
              (map (\<lambda>j. hourlySample h (NewDate (Some (Hourly.time h ! j))) j)
                 [0..<length (Hourly.time h)])"
    using day axis hrs by (intro allI impI conjI) (simp_all only:)
  have ords: "\<forall>before. sorted_wrt before (map (\<lambda>s. NewDate (Some s)) (Daily.time d))
           \<longrightarrow> sorted_wrt before (map date (ForecastData.forecast ?f))"
    using ord by (intro allI impI)
  from res len days ords show ?thesis
    by (intro exI [of _ ?f] conjI)
qed

text \<open>The two-day payload in a runtime at UTC: the day dated 2024-01-01 holds the two
  samples stamped 2024-01-01, the day dated 2024-01-02 holds none.\<close>

lemma formatForecast_at_UTC:
  "case formatForecast (utc_runtime 0) payload_two moscow of
     Inl e \<Rightarrow> False
   | Inr f \<Rightarrow>
       map date (ForecastData.forecast f) =
         [NewDate (Some ''2024-01-01''), NewDate (Some ''2024-01-02'')]
     \<and> map (\<lambda>day. map HourlyWeatherData.dt (DailyForecast.hourly day)) (ForecastData.forecast f) =
         [[NewDate (Some ''2024-01-01T00:00''), NewDate (Some ''2024-01-01T01:00'')], []]
     \<and> map DailyForecast.humidity (ForecastData.forecast f) = [Num 50, NaN]"
proof -
  have "map date [dailyForecast_at (utc_runtime 0) daily_two hourly_two 0,
                  dailyForecast_at (utc_runtime 0) daily_two hourly_two 1] =
      [NewDate (Some ''2024-01-01''), NewDate (Some ''2024-01-02'')]"
    by (simp only: list.map dailyForecast_at_day) code_simp
  moreover have "map (\<lambda>day. map HourlyWeatherData.dt (DailyForecast.hourly day))
        [dailyForecast_at (utc_runtime 0) daily_two hourly_two 0,
         dailyForecast_at (utc_runtime 0) daily_two hourly_two 1] =
      [[NewDate (Some ''2024-01-01T00:00''), NewDate (Some ''2024-01-01T01:00'')], []]"
    by (simp only: list.map dailyForecast_at_dts) code_simp
  moreover have "map DailyForecast.humidity
        [dailyForecast_at (utc_runtime 0) daily_two hourly_two 0,
         dailyForecast_at (utc_runtime 0) daily_two hourly_two 1] = [Num 50, NaN]"
    by (simp only: list.map dailyForecast_at_humidity) code_simp
  ultimately show ?thesis
    by (simp only: payload_two_forecast sum.case ForecastData.simps simp_thms)
qed

text \<open>Claim C1.  The number of days, their order and their daily-axis fields are as
  claimed (\<open>formatForecast_days\<close>).  The hourly sequence of a day is not: the code compares
  \<^verbatim>\<open>toDateString\<close> texts, which are calendar dates in the zone of the runtime, and
  \<^verbatim>\<open>new Date\<close> reads the day's stamp \<^verbatim>\<open>2024-01-01\<close> as midnight UTC but an hourly stamp
  \<^verbatim>\<open>2024-01-01T00:00\<close> as local time.  In a runtime west of UTC, on the two-day payload
  (hourly stamps \<^verbatim>\<open>2024-01-01T00:00\<close> and \<^verbatim>\<open>2024-01-01T01:00\<close>), the day dated
  2024-01-01 gets no sample and the day dated 2024-01-02 gets both samples of 2024-01-01,
  and with them the mean humidity of 2024-01-01.\<close>

theorem formatForecast_west_of_UTC:
  "case formatForecast (west_runtime 0) payload_two moscow of
     Inl e \<Rightarrow> False
   | Inr f \<Rightarrow>
       map date (ForecastData.forecast f) =
         [NewDate (Some ''2024-01-01''), NewDate (Some ''2024-01-02'')]
     \<and> map (\<lambda>day. map HourlyWeatherData.dt (DailyForecast.hourly day)) (ForecastData.forecast f) =
         [[], [NewDate (Some ''2024-01-01T00:00''), NewDate (Some ''2024-01-01T01:00'')]]
     \<and> map DailyForecast.humidity (ForecastData.forecast f) = [NaN, Num 50]"
proof -
  have "map date [dailyForecast_at (west_runtime 0) daily_two hourly_two 0,
                  dailyForecast_at (west_runtime 0) daily_two hourly_two 1] =
      [NewDate (Some ''2024-01-01''), NewDate (Some ''2024-01-02'')]"
    by (simp only: list.map dailyForecast_at_day) code_simp
  moreover have "map (\<lambda>day. map HourlyWeatherData.dt (DailyForecast.hourly day))
        [dailyForecast_at (west_runtime 0) daily_two hourly_two 0,
         dailyForecast_at (west_runtime 0) daily_two hourly_two 1] =
      [[], [NewDate (Some ''2024-01-01T00:00''), NewDate (Some ''2024-01-01T01:00'')]]"
    by (simp only: list.map dailyForecast_at_dts) code_simp
  moreover have "map DailyForecast.humidity
        [dailyForecast_at (west_runtime 0) daily_two hourly_two 0,
         dailyForecast_at (west_runtime 0) daily_two hourly_two 1] = [NaN, Num 50]"
    by (simp only: list.map dailyForecast_at_humidity) code_simp
  ultimately show ?thesis
    by (simp only: payload_two_forecast sum.case ForecastData.simps simp_thms)
qed

section \<open>Current conditions\<close>

lemma fold_min_Num:
  "fold (\<lambda>x lowest. case lowest of Num m \<Rightarrow> (if x < m then Num x else Num m) | _ \<Rightarrow> Num x) xs (Num m)
     = Num (fold min xs m)"
  by (induction xs arbitrary: m) (simp_all add: min_def)

lemma fold_max_Num:
  "fold (\<lambda>x highest. case highest of Num m \<Rightarrow> (if m < x then Num x else Num m) | _ \<Rightarrow> Num x) xs (Num m)
     = Num (fold max xs m)"
  by (induction xs arbitrary: m) (simp_all add: max_def)

lemma Math_min_nonempty: "arr \<noteq> [] \<Longrightarrow> Math_min arr = Num (Min (set arr))"
proof (cases arr)
  case Nil
  assume "arr \<noteq> []"
  with Nil show ?thesis by simp
next
  case (Cons x xs)
  have "Math_min (x # xs) = Num (fold min xs x)"
    by (simp add: Math_min_def fold_min_Num)
  also have "fold min xs x = Min (set (x # xs))"
    by (rule Min.set_eq_fold [symmetric])
  finally show ?thesis by (simp only: Cons)
qed

lemma Math_max_nonempty: "arr \<noteq> [] \<Longrightarrow> Math_max arr = Num (Max (set arr))"
proof (cases arr)
  case Nil
  assume "arr \<noteq> []"
  with Nil show ?thesis by simp
next
  case (Cons x xs)
  have "Math_max (x # xs) = Num (fold max xs x)"
    by (simp add: Math_max_def fold_max_Num)
  also have "fold max xs x = Max (set (x # xs))"
    by (rule Max.set_eq_fold [symmetric])
  finally show ?thesis by (simp only: Cons)
qed

lemma Math_min_empty: "Math_min [] = PosInf" and Math_max_empty: "Math_max [] = NegInf"
  by (simp_all add: Math_min_def Math_max_def)

lemma Math_round_Num: "Math_round (Num r) = Num (of_int (round r))"
  by (simp add: round_def)

lemma formatCurrentWeather_Inr:
  assumes "current_weather data = Some cur" and "daily data = Some d"
    and "OpenMeteoResponse.hourly data = Some h"
  shows "\<exists>w. formatCurrentWeather rt data location = Inr w"
  using assms by (simp add: formatCurrentWeather_def Let_def)

text \<open>Claim C3.  For every payload (snapshot and both axes present) whose daily minimum
  and maximum arrays are not empty, \<^verbatim>\<open>formatCurrentWeather\<close> sets \<open>tempMin\<close> to the
  rounded least element of the whole daily minimum array and \<open>tempMax\<close> to the rounded
  greatest element of the whole daily maximum array.\<close>

theorem formatCurrentWeather_extremes:
  assumes "current_weather data = Some cur" and "daily data = Some d"
    and "OpenMeteoResponse.hourly data = Some h"
    and "temperature_2m_min d \<noteq> []" and "temperature_2m_max d \<noteq> []"
  shows "\<exists>w. formatCurrentWeather rt data location = Inr w
     \<and> WeatherData.tempMin w = Num (of_int (round (Min (set (temperature_2m_min d)))))
     \<and> WeatherData.tempMax w = Num (of_int (round (Max (set (temperature_2m_max d)))))"
  using assms
  by (simp add: formatCurrentWeather_def Let_def Math_min_nonempty Math_max_nonempty round_def)

lemma round_5: "round (5::rat) = 5" and round_22: "round (22::rat) = 22"
  by simp_all

text \<open>With the daily arrays \<open>[5, 8]\<close> (minima) and \<open>[18, 22]\<close> (maxima) the result has
  \<open>tempMin = 5\<close> and \<open>tempMax = 22\<close>.\<close>

theorem formatCurrentWeather_extremes_witness:
  "temperature_2m_min daily_two = [5, 8] \<and> temperature_2m_max daily_two = [18, 22]
   \<and> (\<exists>w. formatCurrentWeather (utc_runtime 10) payload_two moscow = Inr w
         \<and> WeatherData.tempMin w = Num 5 \<and> WeatherData.tempMax w = Num 22)"
proof -
  have c: "current_weather payload_two = Some snapshot_jan1"
    and d: "daily payload_two = Some daily_two"
    and h: "OpenMeteoResponse.hourly payload_two = Some hourly_two"
    by (simp_all add: payload_two_def)
  have lo: "temperature_2m_min daily_two = [5, 8]"
    and hi: "temperature_2m_max daily_two = [18, 22]"
    by (simp_all add: daily_two_def)
  have lo': "temperature_2m_min daily_two \<noteq> []" and hi': "temperature_2m_max daily_two \<noteq> []"
    by (simp_all add: lo hi)
  from formatCurrentWeather_extremes [OF c d h lo' hi', of "utc_runtime 10" moscow]
  obtain w where w: "formatCurrentWeather (utc_runtime 10) payload_two moscow = Inr w"
    and tmin: "WeatherData.tempMin w = Num (of_int (round (Min (set (temperature_2m_min daily_two)))))"
    and tmax: "WeatherData.tempMax w = Num (of_int (round (Max (set (temperature_2m_max daily_two)))))"
    by (elim exE conjE)
  have "WeatherData.tempMin w = Num 5"
    unfolding tmin lo by (simp add: round_5)
  moreover have "WeatherData.tempMax w = Num 22"
    unfolding tmax hi by (simp add: round_22)
  ultimately show ?thesis
    using w lo hi by (intro conjI exI [of _ w])
qed

text \<open>Claim C5 says that building current conditions fails when the hourly arrays are
  shorter than the current-hour index.  At 10 o'clock, on the payload whose hourly arrays
  have two entries, \<^verbatim>\<open>formatCurrentWeather\<close> returns a record.\<close>

theorem formatCurrentWeather_out_of_range_counterexample:
  "length (apparent_temperature hourly_two) \<le> getHours (utc_runtime 10)
   \<and> (\<exists>w. formatCurrentWeather (utc_runtime 10) payload_two moscow = Inr w
         \<and> WeatherData.feelsLike w = NaN \<and> WeatherData.humidity w = NaN)"
  by (simp add: formatCurrentWeather_def Let_def payload_two_def hourly_two_def utc_runtime_def
      num_at_def)

text \<open>Claim C5, amended.  For every payload (snapshot and both axes present) whose
  hourly arrays are not longer than the current-hour index, \<^verbatim>\<open>formatCurrentWeather\<close>
  does not fail: each read past the end gives \<^verbatim>\<open>undefined\<close>, and the result is a record
  whose \<open>feelsLike\<close>, \<open>humidity\<close>, \<open>pressure\<close>, \<open>clouds\<close> and \<open>visibility\<close> are NaN,
  the snapshot fields being those of the snapshot.  The source has no range check.\<close>

theorem formatCurrentWeather_out_of_range:
  assumes "current_weather data = Some cur" and "daily data = Some d"
    and "OpenMeteoResponse.hourly data = Some h"
    and "length (apparent_temperature h) \<le> getHours rt"
    and "length (relative_humidity_2m h) \<le> getHours rt"
    and "length (pressure_msl h) \<le> getHours rt"
    and "length (cloudcover h) \<le> getHours rt"
    and "length (Hourly.visibility h) \<le> getHours rt"
  shows "\<exists>w. formatCurrentWeather rt data location = Inr w
     \<and> WeatherData.feelsLike w = NaN \<and> WeatherData.humidity w = NaN
     \<and> WeatherData.pressure w = NaN \<and> WeatherData.clouds w = NaN
     \<and> WeatherData.visibility w = NaN
     \<and> WeatherData.temp w = Math_round (Num (temperature cur))
     \<and> WeatherData.windSpeed w = Num (windspeed cur)
     \<and> WeatherData.windDeg w = Num (winddirection cur)"
  using assms by (simp add: formatCurrentWeather_def Let_def num_at_def)

text \<open>The two-hour payload at 10 o'clock.\<close>

theorem formatCurrentWeather_out_of_range_witness:
  "\<exists>w. formatCurrentWeather (utc_runtime 10) payload_two moscow = Inr w
     \<and> WeatherData.pressure w = NaN \<and> WeatherData.clouds w = NaN
     \<and> WeatherData.visibility w = NaN \<and> WeatherData.temp w = Num 15"
proof -
  have c: "current_weather payload_two = Some snapshot_jan1"
    and d: "daily payload_two = Some daily_two"
    and h: "OpenMeteoResponse.hourly payload_two = Some hourly_two"
    by (simp_all add: payload_two_def)
  have short: "length (apparent_temperature hourly_two) \<le> getHours (utc_runtime 10)"
    "length (relative_humidity_2m hourly_two) \<le> getHours (utc_runtime 10)"
    "length (pressure_msl hourly_two) \<le> getHours (utc_runtime 10)"
    "length (cloudcover hourly_two) \<le> getHours (utc_runtime 10)"
    "length (Hourly.visibility hourly_two) \<le> getHours (utc_runtime 10)"
    by (simp_all add: hourly_two_def utc_runtime_def)
  have t: "Math_round (Num (temperature snapshot_jan1)) = Num 15"
    by code_simp
  from formatCurrentWeather_out_of_range [OF c d h short, of moscow]
  show ?thesis unfolding t by blast
qed

section \<open>The facade\<close>

lemma formatCurrentWeather_label:
  "formatCurrentWeather rt data location = Inr w \<Longrightarrow>
     cityName w = Location.city location \<and> WeatherData.country w = Location.country location"
  by (auto simp: formatCurrentWeather_def Let_def split: option.splits)

lemma formatForecast_label:
  "formatForecast rt data location = Inr f \<Longrightarrow>
     ForecastData.city f = Location.city location \<and> ForecastData.country f = Location.country location"
  by (auto simp: formatForecast_def Let_def split: option.splits if_splits)

lemma getWeatherAndForecast_Inr:
  assumes "getWeatherAndForecast rt response reverse = Inr r"
  shows "\<exists>data. response = Inr data
     \<and> formatCurrentWeather rt data (getCityNameByCoords rt reverse) = Inr (current r)
     \<and> formatForecast rt data (getCityNameByCoords rt reverse) = Inr (WeatherAndForecast.forecast r)"
  using assms by (auto simp: getWeatherAndForecast_def Let_def split: sum.splits)

text \<open>Claim C9.  For every call of \<^verbatim>\<open>getWeatherAndForecast\<close> that returns, the current
  conditions and the forecast carry the same location label: both are built from the
  one result of \<^verbatim>\<open>getCityNameByCoords\<close>.\<close>

theorem getWeatherAndForecast_same_label:
  assumes "getWeatherAndForecast rt response reverse = Inr r"
  shows "cityName (current r) = ForecastData.city (WeatherAndForecast.forecast r)
     \<and> WeatherData.country (current r) = ForecastData.country (WeatherAndForecast.forecast r)"
proof -
  from getWeatherAndForecast_Inr [OF assms] obtain data
    where "formatCurrentWeather rt data (getCityNameByCoords rt reverse) = Inr (current r)"
      and "formatForecast rt data (getCityNameByCoords rt reverse) = Inr (WeatherAndForecast.forecast r)"
    by blast
  then show ?thesis
    by (simp add: formatCurrentWeather_label formatForecast_label)
qed

lemma getCityNameByCoords_moscow:
  "getCityNameByCoords (utc_runtime hour) (Inr reverse_moscow) = moscow"
  by code_simp

lemma getWeatherAndForecast_Inr_iff:
  assumes "current_weather data = Some cur" and "daily data = Some d"
    and "OpenMeteoResponse.hourly data = Some h"
  shows "\<exists>r. getWeatherAndForecast rt (Inr data) reverse = Inr r"
proof -
  obtain w where "formatCurrentWeather rt data (getCityNameByCoords rt reverse) = Inr w"
    using formatCurrentWeather_Inr [OF assms] by blast
  moreover obtain f where "formatForecast rt data (getCityNameByCoords rt reverse) = Inr f"
    using formatForecast_Inr [OF assms(2,3)] by blast
  ultimately show ?thesis
    by (simp add: getWeatherAndForecast_def Let_def)
qed

text \<open>A call that returns, with the label found by the reverse lookup.\<close>

theorem getWeatherAndForecast_same_label_witness:
  "\<exists>r. getWeatherAndForecast (utc_runtime 0) (Inr payload_two) (Inr reverse_moscow) = Inr r
     \<and> cityName (current r) = ''Moscow''
     \<and> ForecastData.city (WeatherAndForecast.forecast r) = ''Moscow''
     \<and> WeatherData.country (current r) = ''RU''
     \<and> ForecastData.country (WeatherAndForecast.forecast r) = ''RU''"
proof -
  have "current_weather payload_two = Some snapshot_jan1" "daily payload_two = Some daily_two"
    "OpenMeteoResponse.hourly payload_two = Some hourly_two"
    by (simp_all add: payload_two_def)
  from getWeatherAndForecast_Inr_iff [OF this] obtain r
    where r: "getWeatherAndForecast (utc_runtime 0) (Inr payload_two) (Inr reverse_moscow) = Inr r"
    by blast
  from getWeatherAndForecast_Inr [OF r]
  have "formatCurrentWeather (utc_runtime 0) payload_two moscow = Inr (current r)"
    by (simp add: getCityNameByCoords_moscow)
  then have "cityName (current r) = ''Moscow''" "WeatherData.country (current r) = ''RU''"
    by (simp_all add: formatCurrentWeather_label moscow_def)
  with getWeatherAndForecast_same_label [OF r] r show ?thesis
    by (intro exI [of _ r]) simp
qed

lemma min_5_eq_0: "min 5 n = 0 \<longleftrightarrow> n = (0::nat)"
  by (simp add: min_def)

lemma formatCurrentWeather_relabel:
  "formatCurrentWeather rt data location' =
     (case formatCurrentWeather rt data location of
        Inl e \<Rightarrow> Inl e
      | Inr w \<Rightarrow> Inr (w\<lparr>cityName := Location.city location',
                        WeatherData.country := Location.country location'\<rparr>))"
  by (simp add: formatCurrentWeather_def Let_def split: option.splits)

lemma formatForecast_relabel:
  "formatForecast rt data location' =
     (case formatForecast rt data location of
        Inl e \<Rightarrow> Inl e
      | Inr f \<Rightarrow> Inr (f\<lparr>ForecastData.city := Location.city location',
                        ForecastData.country := Location.country location'\<rparr>))"
  by (auto simp: formatForecast_def Let_def min_5_eq_0 split: option.splits)

lemma getWeatherAndForecast_relabel:
  "getWeatherAndForecast rt response reverse' =
     (case getWeatherAndForecast rt response reverse of
        Inl e \<Rightarrow> Inl e
      | Inr r \<Rightarrow>
          Inr (r\<lparr>current := (current r)
                     \<lparr>cityName := Location.city (getCityNameByCoords rt reverse'),
                      WeatherData.country := Location.country (getCityNameByCoords rt reverse')\<rparr>,
                  WeatherAndForecast.forecast := (WeatherAndForecast.forecast r)
                     \<lparr>ForecastData.city := Location.city (getCityNameByCoords rt reverse'),
                      ForecastData.country := Location.country (getCityNameByCoords rt reverse')\<rparr>\<rparr>))"
proof (cases response)
  case (Inl e)
  then show ?thesis by (simp add: getWeatherAndForecast_def)
next
  case (Inr data)
  show ?thesis
    by (simp add: Inr getWeatherAndForecast_def Let_def
        formatCurrentWeather_relabel [of rt data "getCityNameByCoords rt reverse'"
          "getCityNameByCoords rt reverse"]
        formatForecast_relabel [of rt data "getCityNameByCoords rt reverse'"
          "getCityNameByCoords rt reverse"]
        split: sum.splits)
qed

lemma getCityNameByCoords_failure:
  "getCityNameByCoords rt (Inl error) = \<lparr> Location.city = ''Unknown'', Location.country = [] \<rparr>"
  by (simp add: getCityNameByCoords_def)

text \<open>Claim C8.  For every payload delivered by the forecast request (snapshot and both
  axes present), for every runtime and every error of the reverse lookup,
  \<^verbatim>\<open>getWeatherAndForecast\<close> returns; its label is city \<^verbatim>\<open>Unknown\<close> and the empty
  country; and the result is the result for any answered reverse lookup with the four
  label fields overwritten, so every other field is the same.\<close>

theorem reverse_lookup_failure:
  assumes "current_weather data = Some cur" and "daily data = Some d"
    and "OpenMeteoResponse.hourly data = Some h"
  shows "\<exists>r. getWeatherAndForecast rt (Inr data) (Inl error) = Inr r
     \<and> cityName (current r) = ''Unknown'' \<and> WeatherData.country (current r) = []
     \<and> ForecastData.city (WeatherAndForecast.forecast r) = ''Unknown''
     \<and> ForecastData.country (WeatherAndForecast.forecast r) = []
     \<and> (\<forall>found. \<exists>r'. getWeatherAndForecast rt (Inr data) (Inr found) = Inr r'
           \<and> r = r'\<lparr>current := (current r')\<lparr>cityName := ''Unknown'', WeatherData.country := []\<rparr>,
                    WeatherAndForecast.forecast := (WeatherAndForecast.forecast r')
                      \<lparr>ForecastData.city := ''Unknown'', ForecastData.country := []\<rparr>\<rparr>)"
proof -
  obtain r where r: "getWeatherAndForecast rt (Inr data) (Inl error) = Inr r"
    using getWeatherAndForecast_Inr_iff [OF assms] by blast
  have label: "cityName (current r) = ''Unknown''" "WeatherData.country (current r) = []"
    "ForecastData.city (WeatherAndForecast.forecast r) = ''Unknown''"
    "ForecastData.country (WeatherAndForecast.forecast r) = []"
    using getWeatherAndForecast_Inr [OF r]
    by (auto simp: getCityNameByCoords_failure dest: formatCurrentWeather_label formatForecast_label)
  have other: "\<exists>r'. getWeatherAndForecast rt (Inr data) (Inr found) = Inr r'
           \<and> r = r'\<lparr>current := (current r')\<lparr>cityName := ''Unknown'', WeatherData.country := []\<rparr>,
                    WeatherAndForecast.forecast := (WeatherAndForecast.forecast r')
                      \<lparr>ForecastData.city := ''Unknown'', ForecastData.country := []\<rparr>\<rparr>" for found
  proof -
    obtain r' where r': "getWeatherAndForecast rt (Inr data) (Inr found) = Inr r'"
      using getWeatherAndForecast_Inr_iff [OF assms] by blast
    from getWeatherAndForecast_relabel [of rt "Inr data" "Inl error" "Inr found"] r r'
    show ?thesis by (simp add: getCityNameByCoords_failure)
  qed
  from r label other show ?thesis by blast
qed

text \<open>The reverse lookup failing with a network error, against the lookup that finds
  Moscow.\<close>

theorem reverse_lookup_failure_witness:
  "\<exists>r r'. getWeatherAndForecast (utc_runtime 0) (Inr payload_two)
             (Inl (AxiosError None True ''Network Error'')) = Inr r
     \<and> getWeatherAndForecast (utc_runtime 0) (Inr payload_two) (Inr reverse_moscow) = Inr r'
     \<and> cityName (current r) = ''Unknown'' \<and> cityName (current r') = ''Moscow''
     \<and> ForecastData.city (WeatherAndForecast.forecast r) = ''Unknown''
     \<and> WeatherData.humidity (current r) = WeatherData.humidity (current r')
     \<and> ForecastData.forecast (WeatherAndForecast.forecast r) =
         ForecastData.forecast (WeatherAndForecast.forecast r')"
proof -
  have "current_weather payload_two = Some snapshot_jan1" "daily payload_two = Some daily_two"
    "OpenMeteoResponse.hourly payload_two = Some hourly_two"
    by (simp_all add: payload_two_def)
  from reverse_lookup_failure [OF this, of "utc_runtime 0" "AxiosError None True ''Network Error''"]
  obtain r where r: "getWeatherAndForecast (utc_runtime 0) (Inr payload_two)
             (Inl (AxiosError None True ''Network Error'')) = Inr r"
    and u: "cityName (current r) = ''Unknown''"
      "ForecastData.city (WeatherAndForecast.forecast r) = ''Unknown''"
    and other: "\<forall>found. \<exists>r'. getWeatherAndForecast (utc_runtime 0) (Inr payload_two) (Inr found) = Inr r'
           \<and> r = r'\<lparr>current := (current r')\<lparr>cityName := ''Unknown'', WeatherData.country := []\<rparr>,
                    WeatherAndForecast.forecast := (WeatherAndForecast.forecast r')
                      \<lparr>ForecastData.city := ''Unknown'', ForecastData.country := []\<rparr>\<rparr>"
    by (elim exE conjE)
  from other [rule_format, of reverse_moscow] obtain r'
    where r': "getWeatherAndForecast (utc_runtime 0) (Inr payload_two) (Inr reverse_moscow) = Inr r'"
      and eq: "r = r'\<lparr>current := (current r')\<lparr>cityName := ''Unknown'', WeatherData.country := []\<rparr>,
                    WeatherAndForecast.forecast := (WeatherAndForecast.forecast r')
                      \<lparr>ForecastData.city := ''Unknown'', ForecastData.country := []\<rparr>\<rparr>"
    by (elim exE conjE)
  from getWeatherAndForecast_Inr [OF r']
  have "formatCurrentWeather (utc_runtime 0) payload_two moscow = Inr (current r')"
    by (simp add: getCityNameByCoords_moscow)
  then have m: "cityName (current r') = ''Moscow''"
    by (simp add: formatCurrentWeather_label moscow_def)
  have same: "WeatherData.humidity (current r) = WeatherData.humidity (current r')"
    "ForecastData.forecast (WeatherAndForecast.forecast r) =
         ForecastData.forecast (WeatherAndForecast.forecast r')"
    by (subst eq, simp)+
  from r r' u m same show ?thesis
    by (intro exI [of _ r] exI [of _ r'] conjI)
qed

section \<open>Icons\<close>

lemma formatForecast_InrD:
  assumes "formatForecast rt data location = Inr f"
  shows "\<exists>d. daily data = Some d \<and>
     (ForecastData.forecast f = [] \<or>
      (\<exists>h. OpenMeteoResponse.hourly data = Some h \<and>
         ForecastData.forecast f = map (dailyForecast_at rt d h) [0..<min 5 (length (Daily.time d))]))"
  using assms
  by (auto simp: formatForecast_def Let_def fold_push_map split: option.splits if_splits)

lemma hourlySample_iconUrl:
  "HourlyWeatherData.iconUrl (hourlySample h hourDate index) =
     ''https://openweathermap.org/img/wn/'' @ HourlyWeatherData.icon (hourlySample h hourDate index) @ ''@2x.png''"
  by (simp add: hourlySample_def getWeatherIconUrl_def)

lemma dailyForecast_at_iconUrl:
  "DailyForecast.iconUrl (dailyForecast_at rt d h i) =
     ''https://openweathermap.org/img/wn/'' @ DailyForecast.icon (dailyForecast_at rt d h i) @ ''@2x.png''"
  by (simp add: dailyForecast_at_def Let_def getWeatherIconUrl_def)

lemma dailyForecast_at_hourly_iconUrl:
  assumes "s \<in> set (DailyForecast.hourly (dailyForecast_at rt d h i))"
  shows "HourlyWeatherData.iconUrl s =
     ''https://openweathermap.org/img/wn/'' @ HourlyWeatherData.icon s @ ''@2x.png''"
proof -
  from assms obtain j where "s = hourlySample h (NewDate (Some (Hourly.time h ! j))) j"
    by (auto simp: dailyForecast_at_hourly hourlyData_for_bucket)
  then show ?thesis by (simp only: hourlySample_iconUrl)
qed

text \<open>Claim C10.  In every record that \<^verbatim>\<open>formatCurrentWeather\<close> and
  \<^verbatim>\<open>formatForecast\<close> produce (the current conditions, every day of the forecast and
  every hourly sample of every day) the field \<open>iconUrl\<close> is
  \<^verbatim>\<open>https://openweathermap.org/img/wn/\<close>, then the record's \<open>icon\<close>, then \<^verbatim>\<open>@2x.png\<close>.\<close>

theorem iconUrl_of_icon:
  "(\<forall>w. formatCurrentWeather rt data location = Inr w \<longrightarrow>
      WeatherData.iconUrl w =
        ''https://openweathermap.org/img/wn/'' @ WeatherData.icon w @ ''@2x.png'')
   \<and> (\<forall>f. formatForecast rt data location = Inr f \<longrightarrow>
      (\<forall>day \<in> set (ForecastData.forecast f).
         DailyForecast.iconUrl day =
           ''https://openweathermap.org/img/wn/'' @ DailyForecast.icon day @ ''@2x.png''
       \<and> (\<forall>s \<in> set (DailyForecast.hourly day).
             HourlyWeatherData.iconUrl s =
               ''https://openweathermap.org/img/wn/'' @ HourlyWeatherData.icon s @ ''@2x.png'')))"
proof (intro conjI allI impI ballI)
  fix w assume "formatCurrentWeather rt data location = Inr w"
  then show "WeatherData.iconUrl w =
        ''https://openweathermap.org/img/wn/'' @ WeatherData.icon w @ ''@2x.png''"
    by (auto simp: formatCurrentWeather_def Let_def getWeatherIconUrl_def split: option.splits)
next
  fix f day assume f: "formatForecast rt data location = Inr f"
    and day: "day \<in> set (ForecastData.forecast f)"
  from formatForecast_InrD [OF f] day obtain d h i
    where "day = dailyForecast_at rt d h i" by auto
  then show "DailyForecast.iconUrl day =
           ''https://openweathermap.org/img/wn/'' @ DailyForecast.icon day @ ''@2x.png''"
    by (simp only: dailyForecast_at_iconUrl)
next
  fix f day s assume f: "formatForecast rt data location = Inr f"
    and day: "day \<in> set (ForecastData.forecast f)"
    and s: "s \<in> set (DailyForecast.hourly day)"
  from formatForecast_InrD [OF f] day obtain d h i
    where "day = dailyForecast_at rt d h i" by auto
  with s show "HourlyWeatherData.iconUrl s =
               ''https://openweathermap.org/img/wn/'' @ HourlyWeatherData.icon s @ ''@2x.png''"
    by (simp only: dailyForecast_at_hourly_iconUrl)
qed

lemma hourlySample_icon:
  "HourlyWeatherData.icon (hourlySample h hourDate index) =
     getWeatherIcon (num_at (Hourly.weathercode h) index)"
  by (simp add: hourlySample_def)

lemma dailyForecast_at_icon:
  "DailyForecast.icon (dailyForecast_at rt d h i) = getWeatherIcon (num_at (Daily.weathercode d) i)"
  by (simp add: dailyForecast_at_def Let_def)

lemma payload_two_first_bucket:
  "bucket (utc_runtime 0) hourly_two (NewDate (str_at (Daily.time daily_two) 0)) = [0, 1]"
  by code_simp

lemma payload_two_icons:
  "case formatCurrentWeather (utc_runtime 0) payload_two moscow of
     Inl e \<Rightarrow> False
   | Inr w \<Rightarrow> WeatherData.icon w = ''10d''"
  "case formatForecast (utc_runtime 0) payload_two moscow of
     Inl e \<Rightarrow> False
   | Inr f \<Rightarrow> length (ForecastData.forecast f) = 2
       \<and> DailyForecast.icon (ForecastData.forecast f ! 0) = ''10d''
       \<and> length (DailyForecast.hourly (ForecastData.forecast f ! 0)) = 2
       \<and> HourlyWeatherData.icon (DailyForecast.hourly (ForecastData.forecast f ! 0) ! 1) = ''04d''"
proof -
  show "case formatCurrentWeather (utc_runtime 0) payload_two moscow of
     Inl e \<Rightarrow> False
   | Inr w \<Rightarrow> WeatherData.icon w = ''10d''"
    by code_simp
  have hs: "DailyForecast.hourly (dailyForecast_at (utc_runtime 0) daily_two hourly_two 0) =
      [hourlySample hourly_two (NewDate (Some (Hourly.time hourly_two ! 0))) 0,
       hourlySample hourly_two (NewDate (Some (Hourly.time hourly_two ! 1))) 1]"
    by (simp only: dailyForecast_at_bucket payload_two_first_bucket list.map)
  have day: "DailyForecast.icon (dailyForecast_at (utc_runtime 0) daily_two hourly_two 0) = ''10d''"
    by (simp only: dailyForecast_at_icon) code_simp
  have hour: "HourlyWeatherData.icon
      (hourlySample hourly_two (NewDate (Some (Hourly.time hourly_two ! 1))) 1) = ''04d''"
    by (simp only: hourlySample_icon) code_simp
  have nth: "[x, y] ! 0 = x" "[x, y] ! 1 = y" "length [x, y] = 2" for x y :: 'a
    by simp_all
  show "case formatForecast (utc_runtime 0) payload_two moscow of
     Inl e \<Rightarrow> False
   | Inr f \<Rightarrow> length (ForecastData.forecast f) = 2
       \<and> DailyForecast.icon (ForecastData.forecast f ! 0) = ''10d''
       \<and> length (DailyForecast.hourly (ForecastData.forecast f ! 0)) = 2
       \<and> HourlyWeatherData.icon (DailyForecast.hourly (ForecastData.forecast f ! 0) ! 1) = ''04d''"
    by (simp only: payload_two_forecast sum.case ForecastData.simps nth hs day hour simp_thms)
qed

text \<open>On the two-day payload: the snapshot's and the first day's icon is \<^verbatim>\<open>10d\<close>, the
  icon of the second sample of the first day is \<^verbatim>\<open>04d\<close>.\<close>

theorem iconUrl_of_icon_witness:
  "\<exists>w f. formatCurrentWeather (utc_runtime 0) payload_two moscow = Inr w
     \<and> formatForecast (utc_runtime 0) payload_two moscow = Inr f
     \<and> WeatherData.iconUrl w = ''https://openweathermap.org/img/wn/10d@2x.png''
     \<and> DailyForecast.iconUrl (ForecastData.forecast f ! 0) =
         ''https://openweathermap.org/img/wn/10d@2x.png''
     \<and> HourlyWeatherData.iconUrl (DailyForecast.hourly (ForecastData.forecast f ! 0) ! 1) =
         ''https://openweathermap.org/img/wn/04d@2x.png''"
proof -
  from payload_two_icons(1) obtain w
    where w: "formatCurrentWeather (utc_runtime 0) payload_two moscow = Inr w"
      and wi: "WeatherData.icon w = ''10d''"
    by (auto split: sum.splits)
  from payload_two_icons(2) obtain f
    where f: "formatForecast (utc_runtime 0) payload_two moscow = Inr f"
      and n: "length (ForecastData.forecast f) = 2"
      and di: "DailyForecast.icon (ForecastData.forecast f ! 0) = ''10d''"
      and m: "length (DailyForecast.hourly (ForecastData.forecast f ! 0)) = 2"
      and hi: "HourlyWeatherData.icon (DailyForecast.hourly (ForecastData.forecast f ! 0) ! 1) = ''04d''"
    by (auto split: sum.splits)
  have day: "ForecastData.forecast f ! 0 \<in> set (ForecastData.forecast f)"
    using n by simp
  have s: "DailyForecast.hourly (ForecastData.forecast f ! 0) ! 1
      \<in> set (DailyForecast.hourly (ForecastData.forecast f ! 0))"
    using m by simp
  note th = iconUrl_of_icon [of "utc_runtime 0" payload_two moscow]
  have "WeatherData.iconUrl w = ''https://openweathermap.org/img/wn/10d@2x.png''"
    using th w wi by simp
  moreover have "DailyForecast.iconUrl (ForecastData.forecast f ! 0) =
         ''https://openweathermap.org/img/wn/10d@2x.png''"
    using th f day di by simp
  moreover have "HourlyWeatherData.iconUrl (DailyForecast.hourly (ForecastData.forecast f ! 0) ! 1) =
         ''https://openweathermap.org/img/wn/04d@2x.png''"
    using th f day s hi by simp
  ultimately show ?thesis
    using w f by (intro exI [of _ w] exI [of _ f] conjI)
qed

section \<open>Buckets\<close>

lemma set_bucket:
  "j \<in> set (bucket rt h day) \<longleftrightarrow>
     j < length (Hourly.time h) \<and>
     toDateString rt (NewDate (Some (Hourly.time h ! j))) = toDateString rt day"
  by (auto simp: bucket_def)

lemma distinct_bucket: "distinct (bucket rt h day)"
  by (simp add: bucket_def)

lemma sorted_bucket: "sorted_wrt (<) (bucket rt h day)"
  unfolding bucket_def by (rule sorted_wrt_filter) (rule sorted_wrt_upt)

text \<open>Where the runtime renders the dates written in the stamps, the bucket of a day is
  the list of hourly-axis indices of that day's written date.\<close>

lemma utc_renders_written_dates: "renders_written_dates (utc_runtime hour) stamps"
  by (simp add: renders_written_dates_def utc_runtime_def written_date_def)

lemma bucket_written:
  assumes "renders_written_dates rt (Daily.time d @ Hourly.time h)"
    and "i < length (Daily.time d)"
  shows "bucket rt h (NewDate (Some (Daily.time d ! i))) = date_indices h (Daily.time d ! i)"
proof -
  have day: "Daily.time d ! i \<in> set (Daily.time d @ Hourly.time h)"
    using assms(2) by simp
  have "(toDateString rt (NewDate (Some (Hourly.time h ! j))) =
           toDateString rt (NewDate (Some (Daily.time d ! i)))) =
        (written_date (Hourly.time h ! j) = written_date (Daily.time d ! i))"
    if "j \<in> set [0..<length (Hourly.time h)]" for j
  proof -
    from that have hour: "Hourly.time h ! j \<in> set (Daily.time d @ Hourly.time h)"
      by simp
    from assms(1)
    have "\<forall>s \<in> set (Daily.time d @ Hourly.time h). \<forall>t \<in> set (Daily.time d @ Hourly.time h).
        (toDateString rt (NewDate (Some s)) = toDateString rt (NewDate (Some t))) =
        (written_date s = written_date t)"
      by (simp only: renders_written_dates_def)
    then have "\<forall>t \<in> set (Daily.time d @ Hourly.time h).
        (toDateString rt (NewDate (Some (Hourly.time h ! j))) = toDateString rt (NewDate (Some t))) =
        (written_date (Hourly.time h ! j) = written_date t)"
      using hour by (rule bspec)
    then show ?thesis
      using day by (rule bspec)
  qed
  then show ?thesis
    unfolding bucket_def date_indices_def by (intro filter_cong refl)
qed

lemma set_date_indices:
  "j \<in> set (date_indices h stamp) \<longleftrightarrow>
     j < length (Hourly.time h) \<and> written_date (Hourly.time h ! j) = written_date stamp"
  by (auto simp: date_indices_def)

text \<open>Claim C2, amended.  In a runtime that renders the dates written in the stamps of
  the payload (one whose zone is at or ahead of UTC), for every payload with both axes:
  \<^verbatim>\<open>formatForecast\<close> returns the first \<open>min 5 d\<close> days; the hourly sequence of day \<open>i\<close> is
  the samples at the indices of its bucket; the bucket is the list of the hourly-axis
  indices whose stamp carries the calendar date of daily-axis entry \<open>i\<close>, ascending and so
  without repetition.  Two returned days of different calendar dates share no index.  An
  hourly-axis index is in some returned day's bucket exactly when its calendar date is
  that of a returned day: a sample of any other date is in no bucket.\<close>

theorem buckets_by_date:
  assumes "daily data = Some d" and "OpenMeteoResponse.hourly data = Some h"
    and "formatForecast rt data location = Inr f"
    and "renders_written_dates rt (Daily.time d @ Hourly.time h)"
  shows "length (ForecastData.forecast f) = min 5 (length (Daily.time d))
     \<and> (\<forall>i < length (ForecastData.forecast f).
           DailyForecast.hourly (ForecastData.forecast f ! i) =
             map (\<lambda>j. hourlySample h (NewDate (Some (Hourly.time h ! j))) j)
               (bucket rt h (date (ForecastData.forecast f ! i)))
         \<and> bucket rt h (date (ForecastData.forecast f ! i)) =
             date_indices h (Daily.time d ! i)
         \<and> sorted_wrt (<) (bucket rt h (date (ForecastData.forecast f ! i))))
     \<and> (\<forall>i < length (ForecastData.forecast f). \<forall>i' < length (ForecastData.forecast f).
           written_date (Daily.time d ! i) \<noteq> written_date (Daily.time d ! i') \<longrightarrow>
           set (bucket rt h (date (ForecastData.forecast f ! i))) \<inter>
             set (bucket rt h (date (ForecastData.forecast f ! i'))) = {})
     \<and> (\<forall>j < length (Hourly.time h).
           (\<exists>i < length (ForecastData.forecast f).
              j \<in> set (bucket rt h (date (ForecastData.forecast f ! i)))) \<longleftrightarrow>
           (\<exists>i < length (ForecastData.forecast f).
              written_date (Hourly.time h ! j) = written_date (Daily.time d ! i)))"
proof -
  let ?n = "min 5 (length (Daily.time d))"
  have f: "ForecastData.forecast f = map (dailyForecast_at rt d h) [0..<?n]"
    using formatForecast_Inr [OF assms(1,2), of rt location] assms(3) by auto
  have len: "length (ForecastData.forecast f) = ?n"
    by (simp add: f)
  have hrs: "DailyForecast.hourly (ForecastData.forecast f ! i) =
             map (\<lambda>j. hourlySample h (NewDate (Some (Hourly.time h ! j))) j)
               (bucket rt h (date (ForecastData.forecast f ! i)))"
    if "i < ?n" for i
    using that by (simp add: f dailyForecast_at_hourly hourlyData_for_bucket)
  have bk: "bucket rt h (date (ForecastData.forecast f ! i)) = date_indices h (Daily.time d ! i)"
    if "i < ?n" for i
  proof -
    from that have i: "i < length (Daily.time d)" by simp
    have "date (ForecastData.forecast f ! i) = NewDate (Some (Daily.time d ! i))"
      using that i by (simp add: f dailyForecast_at_date)
    then show ?thesis
      by (simp only: bucket_written [OF assms(4) i])
  qed
  have days: "\<forall>i < length (ForecastData.forecast f).
           DailyForecast.hourly (ForecastData.forecast f ! i) =
             map (\<lambda>j. hourlySample h (NewDate (Some (Hourly.time h ! j))) j)
               (bucket rt h (date (ForecastData.forecast f ! i)))
         \<and> bucket rt h (date (ForecastData.forecast f ! i)) =
             date_indices h (Daily.time d ! i)
         \<and> sorted_wrt (<) (bucket rt h (date (ForecastData.forecast f ! i)))"
    unfolding len using hrs bk by (intro allI impI conjI sorted_bucket) (simp_all only:)
  have apart: "\<forall>i < length (ForecastData.forecast f). \<forall>i' < length (ForecastData.forecast f).
           written_date (Daily.time d ! i) \<noteq> written_date (Daily.time d ! i') \<longrightarrow>
           set (bucket rt h (date (ForecastData.forecast f ! i))) \<inter>
             set (bucket rt h (date (ForecastData.forecast f ! i'))) = {}"
    unfolding len
  proof (intro allI impI)
    fix i i' assume "i < ?n" "i' < ?n"
      and "written_date (Daily.time d ! i) \<noteq> written_date (Daily.time d ! i')"
    then show "set (bucket rt h (date (ForecastData.forecast f ! i))) \<inter>
             set (bucket rt h (date (ForecastData.forecast f ! i'))) = {}"
      by (auto simp: bk set_date_indices)
  qed
  have cover: "\<forall>j < length (Hourly.time h).
           (\<exists>i < length (ForecastData.forecast f).
              j \<in> set (bucket rt h (date (ForecastData.forecast f ! i)))) \<longleftrightarrow>
           (\<exists>i < length (ForecastData.forecast f).
              written_date (Hourly.time h ! j) = written_date (Daily.time d ! i))"
    unfolding len
  proof (intro allI impI)
    fix j assume "j < length (Hourly.time h)"
    then show "(\<exists>i < ?n. j \<in> set (bucket rt h (date (ForecastData.forecast f ! i)))) \<longleftrightarrow>
           (\<exists>i < ?n. written_date (Hourly.time h ! j) = written_date (Daily.time d ! i))"
      by (auto simp: bk set_date_indices)
  qed
  from len days apart cover show ?thesis
    by (intro conjI)
qed

lemma payload_week_buckets:
  "case formatForecast (utc_runtime 12) payload_week moscow of
     Inl e \<Rightarrow> False
   | Inr f \<Rightarrow> length (ForecastData.forecast f) = 5
       \<and> map (\<lambda>day. bucket (utc_runtime 12) hourly_week (date day)) (ForecastData.forecast f) =
           [[0], [1], [2], [3], [4]]
       \<and> map (\<lambda>day. length (DailyForecast.hourly day)) (ForecastData.forecast f) =
           [1, 1, 1, 1, 1]
       \<and> length (Hourly.time hourly_week) = 7"
proof -
  have b: "map (\<lambda>i. bucket (utc_runtime 12) hourly_week
                      (NewDate (str_at (Daily.time daily_week) i))) [0, 1, 2, 3, 4] =
      [[0], [1], [2], [3], [4]]"
    by code_simp
  have l: "map (\<lambda>i. length (bucket (utc_runtime 12) hourly_week
                      (NewDate (str_at (Daily.time daily_week) i)))) [0, 1, 2, 3, 4] =
      [1, 1, 1, 1, 1]"
    by code_simp
  have n: "length (Hourly.time hourly_week) = 7"
    by code_simp
  have five: "length [0, 1, 2, 3, 4 :: nat] = 5"
    by simp
  show ?thesis
    by (simp only: payload_week_forecast sum.case ForecastData.simps five map_map comp_def
        dailyForecast_at_day dailyForecast_at_bucket length_map b l n simp_thms)
qed

text \<open>Claim C2 says that the buckets of the returned days cover the whole hourly axis.
  The week payload has seven daily entries and seven hourly samples, one per day; the five
  returned days hold one sample each, their buckets are \<open>[0]\<close> to \<open>[4]\<close>, and index 5 (the
  sample of the sixth day) is in no returned day's bucket.\<close>

theorem buckets_partition_counterexample:
  "\<exists>f. formatForecast (utc_runtime 12) payload_week moscow = Inr f
     \<and> length (Hourly.time hourly_week) = 7
     \<and> map (\<lambda>day. length (DailyForecast.hourly day)) (ForecastData.forecast f) = [1, 1, 1, 1, 1]
     \<and> map (\<lambda>day. bucket (utc_runtime 12) hourly_week (date day)) (ForecastData.forecast f) =
         [[0], [1], [2], [3], [4]]
     \<and> \<not> (\<exists>i < length (ForecastData.forecast f).
            5 \<in> set (bucket (utc_runtime 12) hourly_week (date (ForecastData.forecast f ! i))))"
proof -
  from payload_week_buckets obtain f
    where f: "formatForecast (utc_runtime 12) payload_week moscow = Inr f"
      and n: "length (ForecastData.forecast f) = 5"
      and b: "map (\<lambda>day. bucket (utc_runtime 12) hourly_week (date day)) (ForecastData.forecast f) =
           [[0], [1], [2], [3], [4]]"
      and l: "map (\<lambda>day. length (DailyForecast.hourly day)) (ForecastData.forecast f) =
           [1, 1, 1, 1, 1]"
      and m: "length (Hourly.time hourly_week) = 7"
    by (auto split: sum.splits)
  have notin: "5 \<notin> set (bucket (utc_runtime 12) hourly_week (date (ForecastData.forecast f ! i)))"
    if "i < length (ForecastData.forecast f)" for i
  proof -
    have "bucket (utc_runtime 12) hourly_week (date (ForecastData.forecast f ! i)) =
        map (\<lambda>day. bucket (utc_runtime 12) hourly_week (date day)) (ForecastData.forecast f) ! i"
      using that by simp
    also have "\<dots> = [[0], [1], [2], [3], [4]] ! i"
      by (simp only: b)
    finally have "bucket (utc_runtime 12) hourly_week (date (ForecastData.forecast f ! i)) =
        [[0], [1], [2], [3], [4]] ! i" .
    moreover have "5 \<notin> set ([[0], [1], [2], [3], [4::nat]] ! i)"
      using that n by (auto simp: nth_Cons')
    ultimately show ?thesis by (simp only:) simp
  qed
  have no: "\<not> (\<exists>i < length (ForecastData.forecast f).
            5 \<in> set (bucket (utc_runtime 12) hourly_week (date (ForecastData.forecast f ! i))))"
  proof
    assume "\<exists>i < length (ForecastData.forecast f).
            5 \<in> set (bucket (utc_runtime 12) hourly_week (date (ForecastData.forecast f ! i)))"
    then obtain i where i: "i < length (ForecastData.forecast f)"
      and mem: "5 \<in> set (bucket (utc_runtime 12) hourly_week (date (ForecastData.forecast f ! i)))"
      by (elim exE conjE)
    from notin [OF i] mem show False by (rule notE)
  qed
  from f m l b no show ?thesis
    by (intro exI [of _ f] conjI)
qed

text \<open>Two returned days of one calendar date own the same samples: with the daily axis
  of the two-day payload changed to name the first of January twice, both days own the
  indices 0 and 1.\<close>

lemma buckets_shared_on_equal_dates:
  "case formatForecast (utc_runtime 0)
          (payload_two\<lparr>daily := Some (daily_two\<lparr>Daily.time := [''2024-01-01'', ''2024-01-01'']\<rparr>)\<rparr>)
          moscow of
     Inl e \<Rightarrow> False
   | Inr f \<Rightarrow>
       map (\<lambda>day. bucket (utc_runtime 0) hourly_two (date day)) (ForecastData.forecast f) =
         [[0, 1], [0, 1]]"
proof -
  let ?d = "daily_two\<lparr>Daily.time := [''2024-01-01'', ''2024-01-01'']\<rparr>"
  have d: "daily (payload_two\<lparr>daily := Some ?d\<rparr>) = Some ?d"
    and h: "OpenMeteoResponse.hourly (payload_two\<lparr>daily := Some ?d\<rparr>) = Some hourly_two"
    by (simp_all add: payload_two_def)
  have n: "[0..<min 5 (length (Daily.time ?d))] = [0, 1]"
    by code_simp
  have b: "map (\<lambda>i. bucket (utc_runtime 0) hourly_two (NewDate (str_at (Daily.time ?d) i))) [0, 1] =
      [[0, 1], [0, 1]]"
    by code_simp
  show ?thesis
    by (simp only: formatForecast_Inr [OF d h] n sum.case ForecastData.simps map_map comp_def
        dailyForecast_at_day b)
qed

text \<open>The week payload at noon, UTC: the runtime renders the written dates; the third day
  owns index 2 and nothing else.\<close>

theorem buckets_by_date_witness:
  "renders_written_dates (utc_runtime 12) (Daily.time daily_week @ Hourly.time hourly_week)
   \<and> (\<exists>f. formatForecast (utc_runtime 12) payload_week moscow = Inr f
     \<and> length (ForecastData.forecast f) = 5
     \<and> date_indices hourly_week (Daily.time daily_week ! 2) = [2]
     \<and> bucket (utc_runtime 12) hourly_week (date (ForecastData.forecast f ! 2)) = [2]
     \<and> DailyForecast.hourly (ForecastData.forecast f ! 2) =
         [hourlySample hourly_week (NewDate (Some (Hourly.time hourly_week ! 2))) 2])"
proof -
  from payload_week_buckets obtain f
    where f: "formatForecast (utc_runtime 12) payload_week moscow = Inr f"
      and n: "length (ForecastData.forecast f) = 5"
    by (auto split: sum.splits)
  have d: "daily payload_week = Some daily_week"
    and h: "OpenMeteoResponse.hourly payload_week = Some hourly_week"
    by (simp_all add: payload_week_def)
  have r: "renders_written_dates (utc_runtime 12) (Daily.time daily_week @ Hourly.time hourly_week)"
    by (rule utc_renders_written_dates)
  have two: "2 < length (ForecastData.forecast f)"
    by (simp add: n)
  have ix: "date_indices hourly_week (Daily.time daily_week ! 2) = [2]"
    by code_simp
  note day = buckets_by_date [OF d h f r, THEN conjunct2, THEN conjunct1, rule_format, OF two]
  have bk: "bucket (utc_runtime 12) hourly_week (date (ForecastData.forecast f ! 2)) = [2]"
    using day [THEN conjunct2, THEN conjunct1] by (simp only: ix)
  have "DailyForecast.hourly (ForecastData.forecast f ! 2) =
         [hourlySample hourly_week (NewDate (Some (Hourly.time hourly_week ! 2))) 2]"
    using day [THEN conjunct1] by (simp only: bk list.map)
  with r f n ix bk show ?thesis
    by (intro conjI exI [of _ f])
qed

section \<open>Classifier and wind direction\<close>

lemma number_key_of_int: "number_key (Num (of_int k)) = Some k"
  by (simp add: number_key_def)

lemma weatherCodes_nonempty: "map_of weatherCodes k = Some s \<Longrightarrow> s \<noteq> []"
  by (drule map_of_SomeD) (auto simp: weatherCodes_def)

lemma iconMap_nonempty: "map_of iconMap k = Some s \<Longrightarrow> s \<noteq> []"
  by (drule map_of_SomeD) (auto simp: iconMap_def)

lemma alternativeIconMap_nonempty: "map_of alternativeIconMap k = Some s \<Longrightarrow> s \<noteq> []"
  by (drule map_of_SomeD) (auto simp: alternativeIconMap_def)

lemma getWeatherDescription_integer:
  "getWeatherDescription (Num (of_int k)) =
     (case map_of weatherCodes k of Some s \<Rightarrow> s | None \<Rightarrow> description_fallback)"
  by (auto simp: getWeatherDescription_def lookup_number_def number_key_of_int or_else_def
      split: option.splits dest: weatherCodes_nonempty)

lemma getWeatherIcon_integer:
  "getWeatherIcon (Num (of_int k)) =
     (case map_of iconMap k of Some s \<Rightarrow> s | None \<Rightarrow> ''01d'')"
  by (auto simp: getWeatherIcon_def lookup_number_def number_key_of_int or_else_def
      split: option.splits dest: iconMap_nonempty)

lemma listed_codes:
  "dom (map_of weatherCodes) =
     {0, 1, 2, 3, 45, 48, 51, 53, 55, 61, 63, 65, 71, 73, 75, 77, 80, 81, 82, 95, 96, 99}"
  "dom (map_of iconMap) =
     {0, 1, 2, 3, 45, 48, 51, 53, 55, 61, 63, 65, 71, 73, 75, 77, 80, 81, 82, 95, 96, 99}"
  by (simp_all add: dom_map_of_conv_image_fst weatherCodes_def iconMap_def)

lemma getAlternativeIcon_own_or_fallback:
  "iconCode \<notin> set Object_prototype \<Longrightarrow>
     getAlternativeIcon iconCode =
       Str (case map_of alternativeIconMap iconCode of Some g \<Rightarrow> g | None \<Rightarrow> glyph_fallback)"
  by (auto simp: getAlternativeIcon_def lookup_string_def
      split: option.splits dest: alternativeIconMap_nonempty)

text \<open>Claim C6.  \<^verbatim>\<open>getWeatherDescription\<close> and \<^verbatim>\<open>getWeatherIcon\<close> are as claimed on
  every integer code (\<open>getWeatherDescription_integer\<close>, \<open>getWeatherIcon_integer\<close>,
  \<open>listed_codes\<close>), and \<^verbatim>\<open>getAlternativeIcon\<close> on every string that names no property of
  \<^verbatim>\<open>Object.prototype\<close> (\<open>getAlternativeIcon_own_or_fallback\<close>).  On
  \<^verbatim>\<open>constructor\<close> and \<^verbatim>\<open>toString\<close>, though, \<^verbatim>\<open>getAlternativeIcon\<close> returns the
  inherited member of \<^verbatim>\<open>Object.prototype\<close>, which is neither the key's glyph nor the
  fallback glyph, and is not a string, the declared return type.\<close>

theorem getAlternativeIcon_inherited:
  "getAlternativeIcon ''constructor'' = PrototypeMember ''constructor''
   \<and> getAlternativeIcon ''toString'' = PrototypeMember ''toString''
   \<and> getAlternativeIcon ''01d'' = Str [CHR 0xE2, CHR 0x98, CHR 0x80, CHR 0xEF, CHR 0xB8, CHR 0x8F]
   \<and> getAlternativeIcon ''99x'' = Str glyph_fallback"
  by code_simp

text \<open>The wind direction of a whole number of degrees below \<open>2 ^ 52\<close> in magnitude: the
  quotient by 45, rounded to double precision, has the same \<^verbatim>\<open>Math.round\<close> as the
  exact quotient.\<close>

lemma Math_round_div_45:
  assumes "\<bar>s\<bar> < 2 ^ 52"
  shows "Math_round (js_div (Num (of_int s)) (Num 45)) = Num (of_int (round (rat_of_int s / 45)))"
proof -
  have "\<exists>v. double (rat_of_int s / rat_of_int 45) = Num v
     \<and> \<lfloor>v + 1 / 2\<rfloor> = \<lfloor>rat_of_int s / rat_of_int 45 + 1 / 2\<rfloor>"
    by (rule double_quotient) (use assms in simp_all)
  then obtain v where v: "double (rat_of_int s / 45) = Num v"
    and r: "\<lfloor>v + 1 / 2\<rfloor> = \<lfloor>rat_of_int s / 45 + 1 / 2\<rfloor>"
    by auto
  show ?thesis
    by (simp add: v r round_def)
qed

lemma js_rem_8_nonneg:
  assumes "0 \<le> k"
  shows "js_rem (Num (of_int k)) (Num 8) = Num (of_int (k mod 8))"
proof -
  have "trunc (of_int k / 8) = k div 8"
    using assms by (simp add: trunc_def floor_divide_of_int_eq [of k 8, simplified])
  then have "rat_of_int k - 8 * of_int (trunc (of_int k / 8)) = of_int (k - 8 * (k div 8))"
    by simp
  also have "k - 8 * (k div 8) = k mod 8"
    by (simp add: minus_mult_div_eq_mod)
  finally show ?thesis by simp
qed

lemma getWindDirection_whole_nonneg:
  assumes "0 \<le> s" and "s < 2 ^ 52"
  shows "getWindDirection (Num (of_int s)) =
     Some (directions ! (nat (round (rat_of_int s / 45)) mod 8))"
proof -
  let ?k = "round (rat_of_int s / 45)"
  have k: "0 \<le> ?k"
    using assms(1) by (simp add: round_def)
  have len: "length directions = 8"
    by (simp add: directions_def)
  have s: "\<bar>s\<bar> < 2 ^ 52"
    using assms by simp
  have "js_rem (Math_round (js_div (Num (of_int s)) (Num 45))) (Num 8) = Num (of_int (?k mod 8))"
    by (simp only: Math_round_div_45 [OF s] js_rem_8_nonneg [OF k])
  moreover have "nat (?k mod 8) = nat ?k mod 8"
    using k by (simp add: nat_mod_distrib)
  moreover have "nat ?k mod 8 < 8" by simp
  ultimately show ?thesis
    by (simp add: getWindDirection_def Let_def index_number_def number_key_of_int len
        del: js_rem.simps Math_round.simps js_div.simps)
qed

lemma round_add_8: "round (x + 8 :: rat) = round x + 8"
proof -
  have "x + 8 + 1 / 2 = (x + 1 / 2) + of_int 8" by simp
  then have "\<lfloor>x + 8 + 1 / 2\<rfloor> = \<lfloor>x + 1 / 2\<rfloor> + 8"
    by (simp only: floor_add_int)
  then show ?thesis by (simp add: round_def)
qed

lemma getWindDirection_whole_periodic:
  assumes "0 \<le> s" and "s + 360 < 2 ^ 52"
  shows "getWindDirection (Num (of_int (s + 360))) = getWindDirection (Num (of_int s))"
proof -
  have "rat_of_int (s + 360) / 45 = of_int s / 45 + 8"
    by (simp add: add_divide_distrib)
  then have "round (rat_of_int (s + 360) / 45) = round (rat_of_int s / 45) + 8"
    by (simp only: round_add_8)
  moreover have "0 \<le> round (rat_of_int s / 45)"
    using assms(1) by (simp add: round_def)
  ultimately have "nat (round (rat_of_int (s + 360) / 45)) mod 8 = nat (round (rat_of_int s / 45)) mod 8"
    by (simp add: nat_add_distrib)
  moreover have "0 \<le> s + 360" "s < 2 ^ 52"
    using assms by simp_all
  ultimately show ?thesis
    using assms by (simp only: getWindDirection_whole_nonneg)
qed

lemma js_rem_8_neg:
  assumes "k < 0"
  shows "js_rem (Num (of_int k)) (Num 8) = Num (of_int (- ((- k) mod 8)))"
proof -
  have "rat_of_int k / 8 < 0"
    using assms by simp
  then have "trunc (of_int k / 8) = \<lceil>rat_of_int k / of_int 8\<rceil>"
    by (simp add: trunc_def)
  also have "\<dots> = - ((- k) div 8)"
    by (simp only: ceiling_divide_eq_div)
  finally have "rat_of_int k - 8 * of_int (trunc (of_int k / 8)) = of_int (k + 8 * ((- k) div 8))"
    by simp
  also have "k + 8 * ((- k) div 8) = - ((- k) mod 8)"
    by (simp add: algebra_simps minus_mult_div_eq_mod [symmetric])
  finally show ?thesis by simp
qed

lemma getWindDirection_negative_octant:
  assumes "\<bar>s\<bar> < 2 ^ 52"
    and "round (rat_of_int s / 45) < 0" and "\<not> 8 dvd round (rat_of_int s / 45)"
  shows "getWindDirection (Num (of_int s)) = None"
proof -
  let ?k = "round (rat_of_int s / 45)"
  have "\<not> 8 dvd - ?k"
    using assms(3) by simp
  then have "0 < (- ?k) mod 8"
    by (simp add: dvd_eq_mod_eq_0 less_le)
  then have "- ((- ?k) mod 8) < 0"
    by simp
  moreover define m where "m = - ((- ?k) mod 8)"
  ultimately have neg: "m < 0"
    by simp
  have "js_rem (Math_round (js_div (Num (of_int s)) (Num 45))) (Num 8) = Num (of_int m)"
    unfolding m_def by (simp only: Math_round_div_45 [OF assms(1)] js_rem_8_neg [OF assms(2)])
  then have "getWindDirection (Num (of_int s)) = index_number directions (Num (of_int m))"
    by (simp only: getWindDirection_def Let_def)
  also have "\<dots> = None"
    using neg by (simp add: index_number_def number_key_of_int)
  finally show ?thesis .
qed

text \<open>Claim C7.  At \<open>-45\<close> degrees \<^verbatim>\<open>Math.round(deg / 45) % 8\<close> is \<open>-1\<close>, and
  \<^verbatim>\<open>directions[-1]\<close> is \<^verbatim>\<open>undefined\<close>, not a label; at \<open>-45 + 360\<close> degrees the result is
  the north-west label.  So the periodicity equation fails at a negative input, and the
  result there is not a string, the declared return type.  On whole numbers of degrees
  below \<open>2 ^ 52\<close>: from 0 on, the result is the label of octant \<open>round (deg / 45) mod 8\<close> and is
  the same 360 degrees further (\<open>getWindDirection_whole_nonneg\<close>,
  \<open>getWindDirection_whole_periodic\<close>); below 0, the result is \<^verbatim>\<open>undefined\<close> whenever the
  rounded quotient is not a multiple of 8 (\<open>getWindDirection_negative_octant\<close>).\<close>

theorem getWindDirection_negative:
  "getWindDirection (Num (- 45)) = None
   \<and> getWindDirection (Num (- 45 + 360)) = Some [CHR 0xD0, CHR 0xA1, CHR 0xD0, CHR 0x97]"
  by code_simp

end
